theory Spec2Isabelle
  imports Main "HOL-Library.Word" "HOL-Library.Multiset"
begin

unbundle bit_operations_syntax

section \<open>Data model\<close>

text \<open>
  The development embeds \<^verbatim>\<open>cmd/kubeadm/app/phases/certs/certs.go\<close>: the procedure
  \<^verbatim>\<open>CreatePKIAssets\<close> and the pure function \<^verbatim>\<open>checkAltNamesExist\<close>.
  A \<^verbatim>\<open>net.IP\<close> is a byte slice; an \<^verbatim>\<open>IPNet\<close> is an address with a mask.
\<close>

type_synonym byte = "8 word"

type_synonym IP = "byte list"

record IPNet =
  IP :: IP
  Mask :: IP

text \<open>\<^verbatim>\<open>certutil.AltNames\<close>: two slices, in the order in which they were appended.\<close>

record AltNames =
  DNSNames :: "string list"
  IPs :: "IP list"

datatype ExtKeyUsage = ExtKeyUsageAny | ExtKeyUsageServerAuth | ExtKeyUsageClientAuth

text \<open>\<^verbatim>\<open>certutil.Config\<close>, as the composite literal of lines 123-127 fills it.\<close>

record Config =
  CommonName :: string
  AltNames :: AltNames
  Usages :: "ExtKeyUsage list"

text \<open>The fields of \<^verbatim>\<open>x509.Certificate\<close> that the procedure or its collaborators look at.\<close>

record Certificate =
  Subject :: string
  Issuer :: string
  IsCA :: bool
  CertDNSNames :: "string list"
  IPAddresses :: "IP list"
  ExtKeyUsage :: "ExtKeyUsage list"

datatype PrivateKey = PrivateKey nat

text \<open>The fields of \<^verbatim>\<open>kubeadmapi.MasterConfiguration\<close> that \<^verbatim>\<open>CreatePKIAssets\<close> reads.\<close>

record API =
  AdvertiseAddresses :: "string list"
  ExternalDNSNames :: "string list"

record Networking =
  ServiceSubnet :: string
  DNSDomain :: string

record MasterConfiguration =
  API :: API
  Networking :: Networking

text \<open>
  One constructor for each distinct message that \<^verbatim>\<open>CreatePKIAssets\<close> passes to
  \<^verbatim>\<open>fmt.Errorf\<close>. Lines 88 and 116 build the very same message, without the underlying
  cause, so they share the constructor \<open>CouldNotBeLoaded\<close>.
\<close>

datatype error =
    CouldntGetHostname
  | CouldNotParseIP string
  | ErrorParsingCIDR string
  | UnableToAllocateIP string
  | CouldNotBeLoaded
  | NotACA
  | FailureGeneratingCA
  | FailureSavingCA
  | FailureCreatingAPIServer
  | FailureSavingAPIServer

text \<open>The status lines printed by \<^verbatim>\<open>fmt.Println\<close> and \<^verbatim>\<open>fmt.Printf\<close>, one constructor each.\<close>

datatype line =
    UsingExistingCA
  | GeneratedCA
  | UsingExistingAPIServer
  | GeneratedAPIServer
  | ValidCertsNowExist string

text \<open>What a file of the PKI directory holds: an encoded certificate, an encoded key, or
  bytes that decode to neither.\<close>

datatype content = CertPEM Certificate | KeyPEM PrivateKey | Unparsable string

text \<open>A log of the calls to the generating and writing collaborators, kept beside the
  files so that "nothing was generated" and "nothing was written" can be stated.\<close>

datatype call =
    CallNewCertificateAuthority
  | CallNewCertAndKey Certificate PrivateKey Config
  | CallWriteCertAndKey string string

record world =
  files :: "string \<rightharpoonup> content"
  stdout :: "line list"
  calls :: "call list"

text \<open>
  The collaborators whose results the procedure cannot compute by itself: the host name
  lookup, the parsers of the Go standard library, the certificate library (whose results
  depend on fresh key material) and the failures of the file system.
  A failed call is \<open>None\<close>.
\<close>

record env =
  Hostname :: "string option"
  ParseIP :: "string \<Rightarrow> IP option"
  ParseCIDR :: "string \<Rightarrow> IPNet option"
  NewCertificateAuthority :: "(Certificate \<times> PrivateKey) option"
  NewCertAndKey :: "Certificate \<Rightarrow> PrivateKey \<Rightarrow> Config \<Rightarrow> (Certificate \<times> PrivateKey) option"
  WriteFails :: "string \<Rightarrow> bool"

datatype io_error = CouldNotLoadCert | CouldNotLoadKey | CouldNotWriteKey | CouldNotWriteCert

section \<open>The key-pair store\<close>

text \<open>Modelled from the spec: the constants of package \<^verbatim>\<open>kubeadmconstants\<close> are not under
  src/. Section 6 asks for one fixed identifier per role; the comment of lines 35-39 of
  certs.go names the files \<^verbatim>\<open>ca.{crt,key}\<close> and \<^verbatim>\<open>apiserver.{crt,key}\<close>.\<close>

definition CACertAndKeyBaseName :: string where
  "CACertAndKeyBaseName = ''ca''"

definition APIServerCertAndKeyBaseName :: string where
  "APIServerCertAndKeyBaseName = ''apiserver''"

text \<open>Modelled from the spec: package \<^verbatim>\<open>pkiutil\<close> is not under src/. Section 6: two fixed,
  distinct files per role, a certificate file and a key file.\<close>

definition pathsForCertAndKey :: "string \<Rightarrow> string \<Rightarrow> string \<times> string" where
  "pathsForCertAndKey pkiDir name =
     (pkiDir @ ''/'' @ name @ ''.crt'', pkiDir @ ''/'' @ name @ ''.key'')"

definition fileExists :: "world \<Rightarrow> string \<Rightarrow> bool" where
  "fileExists w p = (case files w p of None \<Rightarrow> False | Some c \<Rightarrow> True)"

text \<open>Modelled from the spec: \<^verbatim>\<open>pkiutil.CertOrKeyExist\<close> is not under src/. Section 6,
  \<^verbatim>\<open>Exists(storeLocation, baseName)\<close>, with section 4.2 step 2 (neither file exists: absent)
  and the comment of line 82 of certs.go (at least one of them exists).\<close>

definition CertOrKeyExist :: "world \<Rightarrow> string \<Rightarrow> string \<Rightarrow> bool" where
  "CertOrKeyExist w pkiDir name =
     (case pathsForCertAndKey pkiDir name of
        (certificatePath, privateKeyPath) \<Rightarrow>
          fileExists w certificatePath \<or> fileExists w privateKeyPath)"

text \<open>Modelled from the spec: \<^verbatim>\<open>pkiutil.TryLoadCertAndKeyFromDisk\<close> is not under src/.
  Section 6, \<^verbatim>\<open>Load(storeLocation, baseName) -> CredentialPair | Error\<close>, with section 4.2
  step 3: a load or parse failure of either file is a failure of the load. The result is
  the triple of the Go function: certificate pointer, key pointer, error.\<close>

definition TryLoadCertAndKeyFromDisk ::
  "world \<Rightarrow> string \<Rightarrow> string \<Rightarrow> Certificate option \<times> PrivateKey option \<times> io_error option" where
  "TryLoadCertAndKeyFromDisk w pkiDir name =
     (case pathsForCertAndKey pkiDir name of
        (certificatePath, privateKeyPath) \<Rightarrow>
          (case files w certificatePath of
             Some (CertPEM cert) \<Rightarrow>
               (case files w privateKeyPath of
                  Some (KeyPEM key) \<Rightarrow> (Some cert, Some key, None)
                | _ \<Rightarrow> (None, None, Some CouldNotLoadKey))
           | _ \<Rightarrow> (None, None, Some CouldNotLoadCert)))"

text \<open>Modelled from the spec: \<^verbatim>\<open>pkiutil.WriteCertAndKey\<close> is not under src/. Section 6,
  \<^verbatim>\<open>Save(storeLocation, baseName, CredentialPair) -> Error\<close>, with section 4.2 step 2: the key
  is written, then the certificate; a failure between the two leaves the key file alone.
  Only the two files of the role are touched.\<close>

definition WriteCertAndKey ::
  "env \<Rightarrow> world \<Rightarrow> string \<Rightarrow> string \<Rightarrow> Certificate \<Rightarrow> PrivateKey \<Rightarrow> io_error option \<times> world" where
  "WriteCertAndKey e w pkiDir name cert key =
     (case pathsForCertAndKey pkiDir name of
        (certificatePath, privateKeyPath) \<Rightarrow>
          (let w0 = w\<lparr>calls := calls w @ [CallWriteCertAndKey pkiDir name]\<rparr> in
           if WriteFails e privateKeyPath then (Some CouldNotWriteKey, w0)
           else
             (let w1 = w0\<lparr>files := (files w0)(privateKeyPath \<mapsto> KeyPEM key)\<rparr> in
              if WriteFails e certificatePath then (Some CouldNotWriteCert, w1)
              else (None, w1\<lparr>files := (files w1)(certificatePath \<mapsto> CertPEM cert)\<rparr>))))"

section \<open>checkAltNamesExist\<close>

text \<open>Modelled from the spec: \<^verbatim>\<open>net.IP.Equal\<close> belongs to the Go standard library and is not
  under src/. Section 4.3: value equality, under which the 4-byte and the 16-byte form of
  one IPv4 address are the same address.\<close>

definition v4InV6Prefix :: IP where
  "v4InV6Prefix = [0, 0, 0, 0, 0, 0, 0, 0, 0, 0, 0xff, 0xff]"

definition Equal :: "IP \<Rightarrow> IP \<Rightarrow> bool" where
  "Equal ip x =
     (if length ip = length x then ip = x
      else if length ip = 4 \<and> length x = 16
        then take 12 x = v4InV6Prefix \<and> ip = drop 12 x
      else if length ip = 16 \<and> length x = 4
        then take 12 ip = v4InV6Prefix \<and> drop 12 ip = x
      else False)"

text \<open>\<^verbatim>\<open>setutil.NewString\<close> and \<^verbatim>\<open>Has\<close>: a set of strings and its membership test.\<close>

definition NewString :: "string list \<Rightarrow> string set" where
  "NewString items = set items"

definition Has :: "string set \<Rightarrow> string \<Rightarrow> bool" where
  "Has s item = (item \<in> s)"

text \<open>Lines 148-152: the first required name that the set lacks ends the function.\<close>

fun dnsNamesExist :: "string set \<Rightarrow> string list \<Rightarrow> bool" where
  "dnsNamesExist dnsset [] = True"
| "dnsNamesExist dnsset (dnsNameThatShouldExist # rest) =
     (if \<not> Has dnsset dnsNameThatShouldExist then False else dnsNamesExist dnsset rest)"

text \<open>Lines 155-161: the inner loop, which stops at the first equal address.\<close>

fun found :: "IP list \<Rightarrow> IP \<Rightarrow> bool" where
  "found [] ipThatShouldExist = False"
| "found (ip # rest) ipThatShouldExist =
     (if Equal ip ipThatShouldExist then True else found rest ipThatShouldExist)"

text \<open>Lines 154-166: the outer loop.\<close>

fun ipsExist :: "IP list \<Rightarrow> IP list \<Rightarrow> bool" where
  "ipsExist ips [] = True"
| "ipsExist ips (ipThatShouldExist # rest) =
     (if \<not> found ips ipThatShouldExist then False else ipsExist ips rest)"

definition checkAltNamesExist :: "IP list \<Rightarrow> string list \<Rightarrow> AltNames \<Rightarrow> bool" where
  "checkAltNamesExist ips dnsNames altNames =
     (let dnsset = NewString dnsNames in
      if \<not> dnsNamesExist dnsset (DNSNames altNames) then False
      else if \<not> ipsExist ips (IPs altNames) then False
      else True)"

section \<open>The address allocator\<close>

text \<open>An address as a number, most significant byte first, and back on a given number
  of bytes.\<close>

definition bigForIP :: "IP \<Rightarrow> nat" where
  "bigForIP ip = foldl (\<lambda>a b. a * 256 + unat b) 0 ip"

fun bytesOfNat :: "nat \<Rightarrow> nat \<Rightarrow> IP" where
  "bytesOfNat 0 m = []"
| "bytesOfNat (Suc k) m = bytesOfNat k (m div 256) @ [of_nat (m mod 256)]"

text \<open>\<^verbatim>\<open>IPNet.Contains\<close>: the address, masked, is the network's address, masked.\<close>

definition Contains :: "IPNet \<Rightarrow> IP \<Rightarrow> bool" where
  "Contains n ip =
     (length ip = length (IP n) \<and> length (Mask n) = length (IP n) \<and>
      map2 (AND) ip (Mask n) = map2 (AND) (IP n) (Mask n))"

text \<open>Modelled from the spec: \<^verbatim>\<open>ipallocator.GetIndexedIP\<close> is not under src/. Section 4.1:
  the address of the service block offset by the index; the call fails when that address
  falls outside the block.\<close>

definition GetIndexedIP :: "IPNet \<Rightarrow> int \<Rightarrow> IP option" where
  "GetIndexedIP subnet index =
     (let m = int (bigForIP (IP subnet)) + index in
      if m < 0 \<or> 256 ^ length (IP subnet) \<le> m then None
      else
        (let ip = bytesOfNat (length (IP subnet)) (nat m) in
         if Contains subnet ip then Some ip else None))"

section \<open>CreatePKIAssets\<close>

text \<open>Lines 47-52.\<close>

definition internalAPIServerFQDN :: "MasterConfiguration \<Rightarrow> string list" where
  "internalAPIServerFQDN cfg =
     [''kubernetes'',
      ''kubernetes.default'',
      ''kubernetes.default.svc'',
      ''kubernetes.default.svc.'' @ DNSDomain (Networking cfg)]"

text \<open>Lines 61-67: the loop over the advertised addresses; \<open>acc\<close> is \<^verbatim>\<open>altNames.IPs\<close>.\<close>

fun parseAdvertiseAddresses :: "env \<Rightarrow> string list \<Rightarrow> IP list \<Rightarrow> error + IP list" where
  "parseAdvertiseAddresses e [] acc = Inr acc"
| "parseAdvertiseAddresses e (a # rest) acc =
     (case ParseIP e a of
        Some ip \<Rightarrow> parseAdvertiseAddresses e rest (acc @ [ip])
      | None \<Rightarrow> Inl (CouldNotParseIP a))"

text \<open>Lines 44-78: the alternative names of the server certificate.\<close>

definition assembleAltNames :: "env \<Rightarrow> MasterConfiguration \<Rightarrow> error + AltNames" where
  "assembleAltNames e cfg =
     (case Hostname e of
        None \<Rightarrow> Inl CouldntGetHostname
      | Some hostname \<Rightarrow>
          (let dnsNames = (ExternalDNSNames (API cfg) @ [hostname]) @ internalAPIServerFQDN cfg in
           case parseAdvertiseAddresses e (AdvertiseAddresses (API cfg)) [] of
             Inl err \<Rightarrow> Inl err
           | Inr ips \<Rightarrow>
               (case ParseCIDR e (ServiceSubnet (Networking cfg)) of
                  None \<Rightarrow> Inl (ErrorParsingCIDR (ServiceSubnet (Networking cfg)))
                | Some n \<Rightarrow>
                    (case GetIndexedIP n 1 of
                       None \<Rightarrow> Inl (UnableToAllocateIP (ServiceSubnet (Networking cfg)))
                     | Some internalAPIServerVirtualIP \<Rightarrow>
                         Inr \<lparr>DNSNames = dnsNames,
                              IPs = ips @ [internalAPIServerVirtualIP]\<rparr>))))"

definition println :: "line \<Rightarrow> world \<Rightarrow> world" where
  "println l w = w\<lparr>stdout := stdout w @ [l]\<rparr>"

definition logCall :: "call \<Rightarrow> world \<Rightarrow> world" where
  "logCall c w = w\<lparr>calls := calls w @ [c]\<rparr>"

text \<open>Lines 80-108: the certificate authority is loaded or generated.\<close>

definition provisionCA ::
  "env \<Rightarrow> string \<Rightarrow> world \<Rightarrow> (error + Certificate \<times> PrivateKey) \<times> world" where
  "provisionCA e pkiDir w =
     (if CertOrKeyExist w pkiDir CACertAndKeyBaseName then
        (case TryLoadCertAndKeyFromDisk w pkiDir CACertAndKeyBaseName of
           (caCert, caKey, err) \<Rightarrow>
             if err \<noteq> None \<or> caCert = None \<or> caKey = None then (Inl CouldNotBeLoaded, w)
             else if \<not> IsCA (the caCert) then (Inl NotACA, w)
             else (Inr (the caCert, the caKey), println UsingExistingCA w))
      else
        (let w0 = logCall CallNewCertificateAuthority w in
         case NewCertificateAuthority e of
           None \<Rightarrow> (Inl FailureGeneratingCA, w0)
         | Some (caCert, caKey) \<Rightarrow>
             (case WriteCertAndKey e w0 pkiDir CACertAndKeyBaseName caCert caKey of
                (Some err, w1) \<Rightarrow> (Inl FailureSavingCA, w1)
              | (None, w1) \<Rightarrow> (Inr (caCert, caKey), println GeneratedCA w1))))"

text \<open>Lines 110-137: the server certificate is loaded or generated.\<close>

definition provisionAPIServer ::
  "env \<Rightarrow> string \<Rightarrow> AltNames \<Rightarrow> Certificate \<Rightarrow> PrivateKey \<Rightarrow> world \<Rightarrow> error option \<times> world" where
  "provisionAPIServer e pkiDir altNames caCert caKey w =
     (if CertOrKeyExist w pkiDir APIServerCertAndKeyBaseName then
        (case TryLoadCertAndKeyFromDisk w pkiDir APIServerCertAndKeyBaseName of
           (apiCert, apiKey, err) \<Rightarrow>
             if err \<noteq> None \<or> apiCert = None \<or> apiKey = None then (Some CouldNotBeLoaded, w)
             else (None, println UsingExistingAPIServer w))
      else
        (let config = \<lparr>CommonName = ''kube-apiserver'',
                       AltNames = altNames,
                       Usages = [ExtKeyUsageServerAuth]\<rparr>;
             w0 = logCall (CallNewCertAndKey caCert caKey config) w in
         case NewCertAndKey e caCert caKey config of
           None \<Rightarrow> (Some FailureCreatingAPIServer, w0)
         | Some (apiCert, apiKey) \<Rightarrow>
             (case WriteCertAndKey e w0 pkiDir APIServerCertAndKeyBaseName apiCert apiKey of
                (Some err, w1) \<Rightarrow> (Some FailureSavingAPIServer, w1)
              | (None, w1) \<Rightarrow> (None, println GeneratedAPIServer w1))))"

text \<open>Lines 43-142. The result is the returned error (\<open>None\<close> is \<^verbatim>\<open>nil\<close>) and the world
  the call leaves behind.\<close>

definition CreatePKIAssets ::
  "env \<Rightarrow> MasterConfiguration \<Rightarrow> string \<Rightarrow> world \<Rightarrow> error option \<times> world" where
  "CreatePKIAssets e cfg pkiDir w =
     (case assembleAltNames e cfg of
        Inl err \<Rightarrow> (Some err, w)
      | Inr altNames \<Rightarrow>
          (case provisionCA e pkiDir w of
             (Inl err, w1) \<Rightarrow> (Some err, w1)
           | (Inr (caCert, caKey), w1) \<Rightarrow>
               (case provisionAPIServer e pkiDir altNames caCert caKey w1 of
                  (Some err, w2) \<Rightarrow> (Some err, w2)
                | (None, w2) \<Rightarrow> (None, println (ValidCertsNowExist pkiDir) w2))))"

section \<open>A concrete environment\<close>

text \<open>The scenario of section 8: external name \<^verbatim>\<open>example.com\<close>, advertised address
  \<^verbatim>\<open>10.0.0.5\<close>, service block \<^verbatim>\<open>10.96.0.0/12\<close>. The parsers of this environment know the
  literals of the scenario and a few more; \<^verbatim>\<open>net.ParseIP\<close> answers in the 16-byte form.\<close>

definition ex_ParseIP :: "string \<Rightarrow> IP option" where
  "ex_ParseIP s =
     (if s = ''10.0.0.5'' then Some [0, 0, 0, 0, 0, 0, 0, 0, 0, 0, 0xff, 0xff, 10, 0, 0, 5]
      else if s = ''192.168.1.7'' then Some [0, 0, 0, 0, 0, 0, 0, 0, 0, 0, 0xff, 0xff, 192, 168, 1, 7]
      else None)"

definition ex_ParseCIDR :: "string \<Rightarrow> IPNet option" where
  "ex_ParseCIDR s =
     (if s = ''10.96.0.0/12'' then Some \<lparr>IP = [10, 96, 0, 0], Mask = [255, 240, 0, 0]\<rparr>
      else if s = ''10.96.0.7/32'' then Some \<lparr>IP = [10, 96, 0, 7], Mask = [255, 255, 255, 255]\<rparr>
      else None)"

definition ex_caCert :: Certificate where
  "ex_caCert = \<lparr>Subject = ''kubernetes'', Issuer = ''kubernetes'', IsCA = True,
     CertDNSNames = [], IPAddresses = [], ExtKeyUsage = []\<rparr>"

definition ex_NewCertAndKey ::
  "Certificate \<Rightarrow> PrivateKey \<Rightarrow> Config \<Rightarrow> (Certificate \<times> PrivateKey) option" where
  "ex_NewCertAndKey caCert caKey config =
     Some (\<lparr>Subject = CommonName config, Issuer = Subject caCert, IsCA = False,
            CertDNSNames = DNSNames (AltNames config), IPAddresses = IPs (AltNames config),
            ExtKeyUsage = Usages config\<rparr>, PrivateKey 2)"

definition ex_env :: env where
  "ex_env = \<lparr>Hostname = Some ''master-1'',
     ParseIP = ex_ParseIP,
     ParseCIDR = ex_ParseCIDR,
     NewCertificateAuthority = Some (ex_caCert, PrivateKey 1),
     NewCertAndKey = ex_NewCertAndKey,
     WriteFails = (\<lambda>p. False)\<rparr>"

definition ex_cfg :: MasterConfiguration where
  "ex_cfg = \<lparr>API = \<lparr>AdvertiseAddresses = [''10.0.0.5''], ExternalDNSNames = [''example.com'']\<rparr>,
     Networking = \<lparr>ServiceSubnet = ''10.96.0.0/12'', DNSDomain = ''cluster.local''\<rparr>\<rparr>"

definition ex_altNames :: AltNames where
  "ex_altNames = \<lparr>DNSNames = [''example.com'', ''master-1'', ''kubernetes'', ''kubernetes.default'',
       ''kubernetes.default.svc'', ''kubernetes.default.svc.cluster.local''],
     IPs = [[0, 0, 0, 0, 0, 0, 0, 0, 0, 0, 0xff, 0xff, 10, 0, 0, 5], [10, 96, 0, 1]]\<rparr>"

definition ex_pkiDir :: string where
  "ex_pkiDir = ''/etc/kubernetes/pki''"

definition empty_world :: world where
  "empty_world = \<lparr>files = Map.empty, stdout = [], calls = []\<rparr>"

text \<open>A server certificate issued for an older configuration: none of the names and
  addresses of the scenario are on it.\<close>

definition stale_apiCert :: Certificate where
  "stale_apiCert = \<lparr>Subject = ''kube-apiserver'', Issuer = ''kubernetes'', IsCA = False,
     CertDNSNames = [''old.example.com''], IPAddresses = [[10, 0, 0, 9]],
     ExtKeyUsage = [ExtKeyUsageServerAuth]\<rparr>"

text \<open>A store that holds a CA pair and a server pair.\<close>

definition valid_world :: world where
  "valid_world = \<lparr>files =
       [''/etc/kubernetes/pki/ca.crt'' \<mapsto> CertPEM ex_caCert,
        ''/etc/kubernetes/pki/ca.key'' \<mapsto> KeyPEM (PrivateKey 1),
        ''/etc/kubernetes/pki/apiserver.crt'' \<mapsto> CertPEM stale_apiCert,
        ''/etc/kubernetes/pki/apiserver.key'' \<mapsto> KeyPEM (PrivateKey 2)],
     stdout = [], calls = []\<rparr>"

text \<open>A store whose CA certificate parses but is no CA.\<close>

definition nonCA_world :: world where
  "nonCA_world = \<lparr>files =
       [''/etc/kubernetes/pki/ca.crt'' \<mapsto> CertPEM (ex_caCert\<lparr>IsCA := False\<rparr>),
        ''/etc/kubernetes/pki/ca.key'' \<mapsto> KeyPEM (PrivateKey 1)],
     stdout = [], calls = []\<rparr>"

text \<open>A store whose CA certificate is no CA, beside a server pair that loads.\<close>

definition nonCA_server_world :: world where
  "nonCA_server_world = \<lparr>files =
       [''/etc/kubernetes/pki/ca.crt'' \<mapsto> CertPEM (ex_caCert\<lparr>IsCA := False\<rparr>),
        ''/etc/kubernetes/pki/ca.key'' \<mapsto> KeyPEM (PrivateKey 1),
        ''/etc/kubernetes/pki/apiserver.crt'' \<mapsto> CertPEM stale_apiCert,
        ''/etc/kubernetes/pki/apiserver.key'' \<mapsto> KeyPEM (PrivateKey 2)],
     stdout = [], calls = []\<rparr>"

text \<open>Stores with the CA key only, with an unparsable CA certificate beside the key, and
  with the server key only.\<close>

definition caKeyOnly_world :: world where
  "caKeyOnly_world = \<lparr>files = [''/etc/kubernetes/pki/ca.key'' \<mapsto> KeyPEM (PrivateKey 1)],
     stdout = [], calls = []\<rparr>"

definition corruptCA_world :: world where
  "corruptCA_world = \<lparr>files =
       [''/etc/kubernetes/pki/ca.crt'' \<mapsto> Unparsable ''garbage'',
        ''/etc/kubernetes/pki/ca.key'' \<mapsto> KeyPEM (PrivateKey 1)],
     stdout = [], calls = []\<rparr>"

definition apiKeyOnly_world :: world where
  "apiKeyOnly_world = \<lparr>files = [''/etc/kubernetes/pki/apiserver.key'' \<mapsto> KeyPEM (PrivateKey 2)],
     stdout = [], calls = []\<rparr>"

text \<open>Configurations: an advertised address that is no IP literal; an external name that
  repeats an internal alias and an advertised address given twice; a service block of one
  address; a service block that is no CIDR; and one with a bad address and a bad block.\<close>

definition badIP_cfg :: MasterConfiguration where
  "badIP_cfg = ex_cfg\<lparr>API := \<lparr>AdvertiseAddresses = [''10.0.0.5'', ''not-an-ip''],
     ExternalDNSNames = [''example.com'']\<rparr>\<rparr>"

definition dup_cfg :: MasterConfiguration where
  "dup_cfg = ex_cfg\<lparr>API := \<lparr>AdvertiseAddresses = [''10.0.0.5'', ''10.0.0.5''],
     ExternalDNSNames = [''kubernetes'']\<rparr>\<rparr>"

definition tiny_cfg :: MasterConfiguration where
  "tiny_cfg = ex_cfg\<lparr>Networking := \<lparr>ServiceSubnet = ''10.96.0.7/32'', DNSDomain = ''cluster.local''\<rparr>\<rparr>"

definition badCIDR_cfg :: MasterConfiguration where
  "badCIDR_cfg = ex_cfg\<lparr>Networking := \<lparr>ServiceSubnet = ''not-a-cidr'', DNSDomain = ''cluster.local''\<rparr>\<rparr>"

definition allBad_cfg :: MasterConfiguration where
  "allBad_cfg = \<lparr>API = \<lparr>AdvertiseAddresses = [''10.0.0.5'', ''not-an-ip'', ''192.168.1.7''],
       ExternalDNSNames = [''example.com'']\<rparr>,
     Networking = \<lparr>ServiceSubnet = ''not-a-cidr'', DNSDomain = ''cluster.local''\<rparr>\<rparr>"

text \<open>The request that the scenario hands to the certificate library, the server
  certificate that the library of \<open>ex_env\<close> answers with, and the world that a run from the
  empty store leaves.\<close>

definition ex_config :: Config where
  "ex_config = \<lparr>CommonName = ''kube-apiserver'', AltNames = ex_altNames,
     Usages = [ExtKeyUsageServerAuth]\<rparr>"

definition ex_apiCert :: Certificate where
  "ex_apiCert = \<lparr>Subject = ''kube-apiserver'', Issuer = ''kubernetes'', IsCA = False,
     CertDNSNames = DNSNames ex_altNames, IPAddresses = IPs ex_altNames,
     ExtKeyUsage = [ExtKeyUsageServerAuth]\<rparr>"

definition generated_world :: world where
  "generated_world = \<lparr>files =
       [''/etc/kubernetes/pki/ca.key'' \<mapsto> KeyPEM (PrivateKey 1),
        ''/etc/kubernetes/pki/ca.crt'' \<mapsto> CertPEM ex_caCert,
        ''/etc/kubernetes/pki/apiserver.key'' \<mapsto> KeyPEM (PrivateKey 2),
        ''/etc/kubernetes/pki/apiserver.crt'' \<mapsto> CertPEM ex_apiCert],
     stdout = [GeneratedCA, GeneratedAPIServer, ValidCertsNowExist ''/etc/kubernetes/pki''],
     calls = [CallNewCertificateAuthority,
       CallWriteCertAndKey ''/etc/kubernetes/pki'' ''ca'',
       CallNewCertAndKey ex_caCert (PrivateKey 1) ex_config,
       CallWriteCertAndKey ''/etc/kubernetes/pki'' ''apiserver'']\<rparr>"

text \<open>The request that a run with \<open>dup_cfg\<close> hands to the certificate library.\<close>

definition dup_config :: Config where
  "dup_config = \<lparr>CommonName = ''kube-apiserver'',
     AltNames = \<lparr>DNSNames = [''kubernetes'', ''master-1'', ''kubernetes'', ''kubernetes.default'',
         ''kubernetes.default.svc'', ''kubernetes.default.svc.cluster.local''],
       IPs = [[0, 0, 0, 0, 0, 0, 0, 0, 0, 0, 0xff, 0xff, 10, 0, 0, 5],
              [0, 0, 0, 0, 0, 0, 0, 0, 0, 0, 0xff, 0xff, 10, 0, 0, 5],
              [10, 96, 0, 1]]\<rparr>,
     Usages = [ExtKeyUsageServerAuth]\<rparr>"

text \<open>The world after the CA step of a run from the empty store.\<close>

definition caOnly_world :: world where
  "caOnly_world = \<lparr>files =
       [''/etc/kubernetes/pki/ca.key'' \<mapsto> KeyPEM (PrivateKey 1),
        ''/etc/kubernetes/pki/ca.crt'' \<mapsto> CertPEM ex_caCert],
     stdout = [GeneratedCA],
     calls = [CallNewCertificateAuthority, CallWriteCertAndKey ''/etc/kubernetes/pki'' ''ca'']\<rparr>"

text \<open>Modelled from the spec: \<^verbatim>\<open>pkiutil.NewCertificateAuthority\<close> is not under src/. Section 3
  asks that the certificate of a CA pair carries the CA bit; an environment respects this
  when the CA certificate its library generates, if any, has the bit set.\<close>

definition generatesCA :: "env \<Rightarrow> bool" where
  "generatesCA e =
     (case NewCertificateAuthority e of
        None \<Rightarrow> True
      | Some (caCert, caKey) \<Rightarrow> IsCA caCert)"

text \<open>The pair of a role is in the store: both files exist and parse.\<close>

definition holdsPair :: "world \<Rightarrow> string \<Rightarrow> string \<Rightarrow> Certificate \<Rightarrow> PrivateKey \<Rightarrow> bool" where
  "holdsPair w pkiDir name cert key =
     (case pathsForCertAndKey pkiDir name of
        (certificatePath, privateKeyPath) \<Rightarrow>
          files w certificatePath = Some (CertPEM cert) \<and>
          files w privateKeyPath = Some (KeyPEM key))"

text \<open>Exactly one of the two files of a role exists.\<close>

definition exactlyOneExists :: "world \<Rightarrow> string \<Rightarrow> string \<Rightarrow> bool" where
  "exactlyOneExists w pkiDir name =
     (case pathsForCertAndKey pkiDir name of
        (certificatePath, privateKeyPath) \<Rightarrow>
          fileExists w certificatePath \<noteq> fileExists w privateKeyPath)"

text \<open>Both files of a role exist, and at least one of them does not parse.\<close>

definition presentInvalid :: "world \<Rightarrow> string \<Rightarrow> string \<Rightarrow> bool" where
  "presentInvalid w pkiDir name =
     (case pathsForCertAndKey pkiDir name of
        (certificatePath, privateKeyPath) \<Rightarrow>
          fileExists w certificatePath \<and> fileExists w privateKeyPath \<and>
          (case TryLoadCertAndKeyFromDisk w pkiDir name of (cert, key, err) \<Rightarrow> err \<noteq> None))"

section \<open>Properties of the key-pair store\<close>

lemma paths_CA:
  "pathsForCertAndKey d CACertAndKeyBaseName = (d @ ''/ca.crt'', d @ ''/ca.key'')"
  by (simp add: pathsForCertAndKey_def CACertAndKeyBaseName_def)

lemma paths_API:
  "pathsForCertAndKey d APIServerCertAndKeyBaseName = (d @ ''/apiserver.crt'', d @ ''/apiserver.key'')"
  by (simp add: pathsForCertAndKey_def APIServerCertAndKeyBaseName_def)

lemma fileExists_iff: "fileExists w p \<longleftrightarrow> files w p \<noteq> None"
  by (simp add: fileExists_def split: option.splits)

lemma WriteCertAndKey_stdout:
  "WriteCertAndKey e w d n c k = (r, w') \<Longrightarrow> stdout w' = stdout w"
  by (auto simp: WriteCertAndKey_def Let_def split: prod.splits if_splits)

lemma WriteCertAndKey_calls:
  "WriteCertAndKey e w d n c k = (r, w') \<Longrightarrow> calls w' = calls w @ [CallWriteCertAndKey d n]"
  by (auto simp: WriteCertAndKey_def Let_def split: prod.splits if_splits)

lemma WriteCertAndKey_files_other:
  "WriteCertAndKey e w d n c k = (r, w') \<Longrightarrow> pathsForCertAndKey d n = (cp, kp) \<Longrightarrow>
   p \<noteq> cp \<Longrightarrow> p \<noteq> kp \<Longrightarrow> files w' p = files w p"
  by (auto simp: WriteCertAndKey_def Let_def split: prod.splits if_splits)

lemma WriteCertAndKey_ok:
  "WriteCertAndKey e w d n c k = (None, w') \<Longrightarrow> holdsPair w' d n c k"
  by (auto simp: WriteCertAndKey_def holdsPair_def pathsForCertAndKey_def Let_def split: prod.splits if_splits)

lemma WriteCertAndKey_preserves:
  "\<not> CertOrKeyExist w d n \<Longrightarrow> WriteCertAndKey e w d n c k = (r, w') \<Longrightarrow>
   files w p = Some x \<Longrightarrow> files w' p = Some x"
  by (auto simp: WriteCertAndKey_def CertOrKeyExist_def fileExists_iff Let_def split: prod.splits if_splits)

lemma CertOrKeyExist_logCall: "CertOrKeyExist (logCall c w) d n = CertOrKeyExist w d n"
  by (simp add: CertOrKeyExist_def logCall_def fileExists_def)

lemma holdsPair_exists: "holdsPair w d n c k \<Longrightarrow> CertOrKeyExist w d n"
  by (auto simp: holdsPair_def CertOrKeyExist_def fileExists_def split: prod.splits)

lemma holdsPair_load:
  "holdsPair w d n c k \<Longrightarrow> TryLoadCertAndKeyFromDisk w d n = (Some c, Some k, None)"
  by (auto simp: holdsPair_def TryLoadCertAndKeyFromDisk_def split: prod.splits)

lemma load_ok_holdsPair:
  "TryLoadCertAndKeyFromDisk w d n = (c, k, None) \<Longrightarrow> \<exists>c' k'. c = Some c' \<and> k = Some k' \<and> holdsPair w d n c' k'"
  by (auto simp: holdsPair_def TryLoadCertAndKeyFromDisk_def split: prod.splits option.splits content.splits)

lemma provisionCA_reuse:
  "holdsPair w d CACertAndKeyBaseName cc ck \<Longrightarrow> IsCA cc \<Longrightarrow>
   provisionCA e d w = (Inr (cc, ck), println UsingExistingCA w)"
  by (simp add: provisionCA_def holdsPair_exists holdsPair_load)

lemma provisionCA_notCA:
  "holdsPair w d CACertAndKeyBaseName cc ck \<Longrightarrow> \<not> IsCA cc \<Longrightarrow>
   provisionCA e d w = (Inl NotACA, w)"
  by (simp add: provisionCA_def holdsPair_exists holdsPair_load)

lemma provisionCA_preserves:
  "provisionCA e d w = (r, w') \<Longrightarrow> files w p = Some x \<Longrightarrow> files w' p = Some x"
  by (auto simp: provisionCA_def Let_def println_def logCall_def CertOrKeyExist_logCall[unfolded logCall_def]
      split: if_splits prod.splits option.splits
      dest!: WriteCertAndKey_preserves[rotated])

section \<open>Properties of the two provisioning steps\<close>

lemma provisionCA_other_files:
  "provisionCA e d w = (r, w') \<Longrightarrow> p \<noteq> d @ ''/ca.crt'' \<Longrightarrow> p \<noteq> d @ ''/ca.key'' \<Longrightarrow>
   files w' p = files w p"
  by (auto simp: provisionCA_def Let_def println_def logCall_def paths_CA
      split: if_splits prod.splits option.splits
      dest!: WriteCertAndKey_files_other[OF _ paths_CA, of _ _ _ _ _ _ _ p])

lemma provisionCA_ok_holds:
  "provisionCA e d w = (Inr (cc, ck), w') \<Longrightarrow> holdsPair w' d CACertAndKeyBaseName cc ck"
  by (auto simp: provisionCA_def Let_def println_def logCall_def holdsPair_def
      split: if_splits prod.splits option.splits
      dest!: WriteCertAndKey_ok load_ok_holdsPair)

lemma provisionCA_ok_IsCA:
  "provisionCA e d w = (Inr (cc, ck), w') \<Longrightarrow> generatesCA e \<Longrightarrow> IsCA cc"
  by (auto simp: provisionCA_def generatesCA_def Let_def split: if_splits prod.splits option.splits)

lemma provisionAPIServer_reuse:
  "holdsPair w d APIServerCertAndKeyBaseName ac ak \<Longrightarrow>
   provisionAPIServer e d a cc ck w = (None, println UsingExistingAPIServer w)"
  by (simp add: provisionAPIServer_def holdsPair_exists holdsPair_load)

lemma provisionAPIServer_preserves:
  "provisionAPIServer e d a cc ck w = (r, w') \<Longrightarrow> files w p = Some x \<Longrightarrow> files w' p = Some x"
  by (auto simp: provisionAPIServer_def Let_def println_def logCall_def CertOrKeyExist_logCall[unfolded logCall_def]
      split: if_splits prod.splits option.splits
      dest!: WriteCertAndKey_preserves[rotated])

lemma provisionAPIServer_ok_holds:
  "provisionAPIServer e d a cc ck w = (None, w') \<Longrightarrow>
   \<exists>ac ak. holdsPair w' d APIServerCertAndKeyBaseName ac ak"
  by (auto simp: provisionAPIServer_def Let_def println_def logCall_def holdsPair_def
      split: if_splits prod.splits option.splits
      dest!: WriteCertAndKey_ok load_ok_holdsPair)

lemma holdsPair_preserved:
  "holdsPair w d n c k \<Longrightarrow> (\<And>p x. files w p = Some x \<Longrightarrow> files w' p = Some x) \<Longrightarrow>
   holdsPair w' d n c k"
  by (auto simp: holdsPair_def split: prod.splits)

lemma holdsPair_println: "holdsPair (println l w) d n c k = holdsPair w d n c k"
  by (simp add: holdsPair_def println_def)

lemma CreatePKIAssets_preserves:
  "CreatePKIAssets e cfg d w = (r, w') \<Longrightarrow> files w p = Some x \<Longrightarrow> files w' p = Some x"
  by (auto simp: CreatePKIAssets_def println_def split: sum.splits prod.splits option.splits
      dest: provisionCA_preserves provisionAPIServer_preserves)

lemma CreatePKIAssets_assembly_fails:
  "assembleAltNames e cfg = Inl err \<Longrightarrow> CreatePKIAssets e cfg d w = (Some err, w)"
  by (simp add: CreatePKIAssets_def)

lemma CreatePKIAssets_valid_store:
  assumes "holdsPair w d CACertAndKeyBaseName cc ck" "IsCA cc"
    "holdsPair w d APIServerCertAndKeyBaseName ac ak" "assembleAltNames e cfg = Inr a"
  shows "CreatePKIAssets e cfg d w =
    (None, w\<lparr>stdout := stdout w @ [UsingExistingCA, UsingExistingAPIServer, ValidCertsNowExist d]\<rparr>)"
proof -
  let ?w1 = "println UsingExistingCA w"
  have ca: "provisionCA e d w = (Inr (cc, ck), ?w1)"
    using assms(1,2) by (rule provisionCA_reuse)
  have "holdsPair ?w1 d APIServerCertAndKeyBaseName ac ak"
    using assms(3) by (simp add: holdsPair_println)
  then have api: "provisionAPIServer e d a cc ck ?w1 = (None, println UsingExistingAPIServer ?w1)"
    by (rule provisionAPIServer_reuse)
  have "CreatePKIAssets e cfg d w =
      (None, println (ValidCertsNowExist d) (println UsingExistingAPIServer ?w1))"
    by (simp add: CreatePKIAssets_def assms(4) ca api)
  then show ?thesis by (simp add: println_def)
qed

lemma CreatePKIAssets_ok_valid:
  assumes "CreatePKIAssets e cfg d w = (None, w')"
    "generatesCA e"
  shows "\<exists>cc ck ac ak a. holdsPair w' d CACertAndKeyBaseName cc ck \<and> IsCA cc \<and>
     holdsPair w' d APIServerCertAndKeyBaseName ac ak \<and> assembleAltNames e cfg = Inr a"
proof -
  from assms(1) obtain a cc ck w1 w2 where
    a: "assembleAltNames e cfg = Inr a" and
    ca: "provisionCA e d w = (Inr (cc, ck), w1)" and
    api: "provisionAPIServer e d a cc ck w1 = (None, w2)" and
    w': "w' = println (ValidCertsNowExist d) w2"
    by (auto simp: CreatePKIAssets_def split: sum.splits prod.splits option.splits)
  from ca have h1: "holdsPair w1 d CACertAndKeyBaseName cc ck" by (rule provisionCA_ok_holds)
  from ca assms(2) have isca: "IsCA cc" by (rule provisionCA_ok_IsCA)
  from h1 have h2: "holdsPair w2 d CACertAndKeyBaseName cc ck"
    by (rule holdsPair_preserved) (rule provisionAPIServer_preserves[OF api])
  from api obtain ac ak where h3: "holdsPair w2 d APIServerCertAndKeyBaseName ac ak"
    by (blast dest: provisionAPIServer_ok_holds)
  from h2 h3 isca a show ?thesis unfolding w' holdsPair_println by blast
qed

section \<open>Properties of the assembly of the alternative names\<close>

lemma bigForIP_snoc: "bigForIP (xs @ [b]) = bigForIP xs * 256 + unat b"
  by (simp add: bigForIP_def)

lemma length_bytesOfNat: "length (bytesOfNat k m) = k"
  by (induction k arbitrary: m) auto

lemma bigForIP_bytesOfNat: "bigForIP (bytesOfNat k m) = m mod 256 ^ k"
proof (induction k arbitrary: m)
  case 0
  then show ?case by (simp add: bigForIP_def)
next
  case (Suc k)
  have "unat (of_nat (m mod 256) :: byte) = m mod 256"
    by (simp add: unat_of_nat)
  then show ?case
    by (simp add: bigForIP_snoc Suc.IH mod_mult2_eq)
qed

lemma GetIndexedIP_Some:
  assumes "GetIndexedIP n 1 = Some v"
  shows "bigForIP v = bigForIP (IP n) + 1 \<and> length v = length (IP n) \<and> Contains n v"
proof -
  let ?m = "int (bigForIP (IP n)) + 1"
  from assms have lt: "?m < 256 ^ length (IP n)"
    and v: "v = bytesOfNat (length (IP n)) (nat ?m)" and c: "Contains n v"
    by (auto simp: GetIndexedIP_def Let_def split: if_splits)
  have "nat ?m = bigForIP (IP n) + 1" by simp
  moreover from lt have "int (bigForIP (IP n) + 1) < int (256 ^ length (IP n))"
    by simp
  then have "bigForIP (IP n) + 1 < 256 ^ length (IP n)"
    by (simp only: of_nat_less_iff)
  ultimately show ?thesis using v c by (simp add: bigForIP_bytesOfNat length_bytesOfNat)
qed

lemma parseAdvertiseAddresses_all:
  "map (ParseIP e) as = map Some ips \<Longrightarrow>
   parseAdvertiseAddresses e as acc = Inr (acc @ ips)"
proof (induction as arbitrary: acc ips)
  case Nil
  then show ?case by simp
next
  case (Cons a as)
  from Cons.prems obtain ip rest where ips: "ips = ip # rest"
    and ip: "ParseIP e a = Some ip" and rest: "map (ParseIP e) as = map Some rest"
    by (cases ips) auto
  from Cons.IH [OF rest, of "acc @ [ip]"] ip ips show ?case by simp
qed

lemma parseAdvertiseAddresses_first_bad:
  "map (ParseIP e) pre = map Some ips \<Longrightarrow> ParseIP e a = None \<Longrightarrow>
   parseAdvertiseAddresses e (pre @ a # post) acc = Inl (CouldNotParseIP a)"
proof (induction pre arbitrary: acc ips)
  case Nil
  then show ?case by simp
next
  case (Cons p pre)
  from Cons.prems(1) obtain ip rest where
    ip: "ParseIP e p = Some ip" and rest: "map (ParseIP e) pre = map Some rest"
    by (cases ips) auto
  from Cons.IH [OF rest Cons.prems(2), of "acc @ [ip]"] ip show ?case by simp
qed

lemma parseAdvertiseAddresses_some_bad:
  "\<exists>s\<in>set as. ParseIP e s = None \<Longrightarrow>
   \<exists>a\<in>set as. ParseIP e a = None \<and>
     parseAdvertiseAddresses e as acc = Inl (CouldNotParseIP a)"
proof (induction as arbitrary: acc)
  case Nil
  then show ?case by simp
next
  case (Cons s as)
  show ?case
  proof (cases "ParseIP e s")
    case None
    then show ?thesis by simp
  next
    case (Some ip)
    with Cons.prems have "\<exists>s\<in>set as. ParseIP e s = None" by auto
    from Cons.IH [OF this, of "acc @ [ip]"] Some show ?thesis by auto
  qed
qed

lemma parseAdvertiseAddresses_Inr:
  "parseAdvertiseAddresses e as acc = Inr ips \<Longrightarrow>
   \<exists>ps. map (ParseIP e) as = map Some ps \<and> ips = acc @ ps"
proof (induction as arbitrary: acc)
  case Nil
  then show ?case by simp
next
  case (Cons a as)
  from Cons.prems obtain ip where ip: "ParseIP e a = Some ip"
    and rest: "parseAdvertiseAddresses e as (acc @ [ip]) = Inr ips"
    by (auto split: option.splits)
  from Cons.IH [OF rest] obtain ps where
    "map (ParseIP e) as = map Some ps" "ips = (acc @ [ip]) @ ps"
    by blast
  with ip have "map (ParseIP e) (a # as) = map Some (ip # ps) \<and> ips = acc @ ip # ps"
    by simp
  then show ?case by blast
qed

lemma assembleAltNames_Inr:
  assumes "assembleAltNames e cfg = Inr a"
  shows "\<exists>h ips n v. Hostname e = Some h \<and>
     map (ParseIP e) (AdvertiseAddresses (API cfg)) = map Some ips \<and>
     ParseCIDR e (ServiceSubnet (Networking cfg)) = Some n \<and> GetIndexedIP n 1 = Some v \<and>
     a = \<lparr>DNSNames = ExternalDNSNames (API cfg) @ [h] @ internalAPIServerFQDN cfg,
          IPs = ips @ [v]\<rparr>"
proof -
  from assms obtain h where h: "Hostname e = Some h"
    by (auto simp: assembleAltNames_def split: option.splits)
  with assms obtain parsed where
    p: "parseAdvertiseAddresses e (AdvertiseAddresses (API cfg)) [] = Inr parsed"
    by (auto simp: assembleAltNames_def Let_def split: sum.splits)
  with assms h obtain n where n: "ParseCIDR e (ServiceSubnet (Networking cfg)) = Some n"
    by (auto simp: assembleAltNames_def Let_def split: option.splits)
  with assms h p obtain v where v: "GetIndexedIP n 1 = Some v"
    by (auto simp: assembleAltNames_def Let_def split: option.splits)
  from parseAdvertiseAddresses_Inr [OF p] have
    m: "map (ParseIP e) (AdvertiseAddresses (API cfg)) = map Some parsed"
    by simp
  from assms h p n v have
    "a = \<lparr>DNSNames = ExternalDNSNames (API cfg) @ [h] @ internalAPIServerFQDN cfg,
          IPs = parsed @ [v]\<rparr>"
    by (simp add: assembleAltNames_def)
  with h m n v show ?thesis by blast
qed

lemma assembleAltNames_ok:
  assumes "Hostname e = Some h"
    "map (ParseIP e) (AdvertiseAddresses (API cfg)) = map Some ips"
    "ParseCIDR e (ServiceSubnet (Networking cfg)) = Some n"
    "GetIndexedIP n 1 = Some v"
  shows "assembleAltNames e cfg =
     Inr \<lparr>DNSNames = ExternalDNSNames (API cfg) @ [h] @ internalAPIServerFQDN cfg,
          IPs = ips @ [v]\<rparr>"
  using assms(1,3,4) parseAdvertiseAddresses_all [OF assms(2), of "[]"]
  by (simp add: assembleAltNames_def)

text \<open>
  Claim C5. With a host name, advertised addresses that all parse (to the addresses
  \<open>ips\<close>, one for each string), and a service block whose address of index 1 can be
  allocated, the assembled alternative names are the N external names, the host name and
  the four internal aliases (N + 5 names, so at least N + 4), and the M parsed addresses
  followed by one more (M + 1 addresses): the address of the service block plus one, which
  lies inside the block.
\<close>

theorem san_completeness:
  assumes "Hostname e = Some h"
    "map (ParseIP e) (AdvertiseAddresses (API cfg)) = map Some ips"
    "ParseCIDR e (ServiceSubnet (Networking cfg)) = Some n"
    "GetIndexedIP n 1 = Some v"
  shows "assembleAltNames e cfg =
       Inr \<lparr>DNSNames = ExternalDNSNames (API cfg) @ [h] @
               [''kubernetes'', ''kubernetes.default'', ''kubernetes.default.svc'',
                ''kubernetes.default.svc.'' @ DNSDomain (Networking cfg)],
            IPs = ips @ [v]\<rparr> \<and>
     length (ExternalDNSNames (API cfg) @ [h] @
               [''kubernetes'', ''kubernetes.default'', ''kubernetes.default.svc'',
                ''kubernetes.default.svc.'' @ DNSDomain (Networking cfg)]) =
       length (ExternalDNSNames (API cfg)) + 5 \<and>
     length (ExternalDNSNames (API cfg)) + 4 \<le>
       length (ExternalDNSNames (API cfg) @ [h] @
               [''kubernetes'', ''kubernetes.default'', ''kubernetes.default.svc'',
                ''kubernetes.default.svc.'' @ DNSDomain (Networking cfg)]) \<and>
     length (ips @ [v]) = length (AdvertiseAddresses (API cfg)) + 1 \<and>
     bigForIP v = bigForIP (IP n) + 1 \<and> Contains n v"
proof -
  from assms(2) have "length (map (ParseIP e) (AdvertiseAddresses (API cfg))) = length (map Some ips)"
    by simp
  then have len: "length ips = length (AdvertiseAddresses (API cfg))"
    by simp
  from assembleAltNames_ok [OF assms] GetIndexedIP_Some [OF assms(4)] len show ?thesis
    by (simp add: internalAPIServerFQDN_def)
qed

text \<open>The scenario of section 8: the virtual address of 10.96.0.0/12 is 10.96.0.1.\<close>

theorem san_completeness_witness:
  "Hostname ex_env = Some ''master-1'' \<and>
   map (ParseIP ex_env) (AdvertiseAddresses (API ex_cfg)) =
     map Some [[0, 0, 0, 0, 0, 0, 0, 0, 0, 0, 0xff, 0xff, 10, 0, 0, 5]] \<and>
   ParseCIDR ex_env (ServiceSubnet (Networking ex_cfg)) =
     Some \<lparr>IP = [10, 96, 0, 0], Mask = [255, 240, 0, 0]\<rparr> \<and>
   GetIndexedIP \<lparr>IP = [10, 96, 0, 0], Mask = [255, 240, 0, 0]\<rparr> 1 = Some [10, 96, 0, 1] \<and>
   assembleAltNames ex_env ex_cfg =
     Inr \<lparr>DNSNames = [''example.com'', ''master-1'', ''kubernetes'', ''kubernetes.default'',
            ''kubernetes.default.svc'', ''kubernetes.default.svc.cluster.local''],
          IPs = [[0, 0, 0, 0, 0, 0, 0, 0, 0, 0, 0xff, 0xff, 10, 0, 0, 5], [10, 96, 0, 1]]\<rparr>"
proof -
  have h1: "Hostname ex_env = Some ''master-1''" by (simp add: ex_env_def)
  have h2: "map (ParseIP ex_env) (AdvertiseAddresses (API ex_cfg)) =
     map Some [[0, 0, 0, 0, 0, 0, 0, 0, 0, 0, 0xff, 0xff, 10, 0, 0, 5]]"
    by (simp add: ex_env_def ex_cfg_def ex_ParseIP_def)
  have h3: "ParseCIDR ex_env (ServiceSubnet (Networking ex_cfg)) =
     Some \<lparr>IP = [10, 96, 0, 0], Mask = [255, 240, 0, 0]\<rparr>"
    by (simp add: ex_env_def ex_cfg_def ex_ParseCIDR_def)
  have h4: "GetIndexedIP \<lparr>IP = [10, 96, 0, 0], Mask = [255, 240, 0, 0]\<rparr> 1 = Some [10, 96, 0, 1]"
    by (simp add: GetIndexedIP_def bigForIP_def Contains_def)
  from san_completeness [OF h1 h2 h3 h4] have "assembleAltNames ex_env ex_cfg =
     Inr \<lparr>DNSNames = [''example.com'', ''master-1'', ''kubernetes'', ''kubernetes.default'',
            ''kubernetes.default.svc'', ''kubernetes.default.svc.cluster.local''],
          IPs = [[0, 0, 0, 0, 0, 0, 0, 0, 0, 0, 0xff, 0xff, 10, 0, 0, 5], [10, 96, 0, 1]]\<rparr>"
    by (simp add: ex_cfg_def)
  with h1 h2 h3 h4 show ?thesis by blast
qed

section \<open>Evaluation at concrete inputs\<close>

lemmas ex_defs = ex_env_def ex_cfg_def ex_ParseIP_def ex_ParseCIDR_def ex_pkiDir_def
  ex_caCert_def ex_NewCertAndKey_def ex_altNames_def ex_config_def ex_apiCert_def
  empty_world_def valid_world_def nonCA_world_def nonCA_server_world_def caKeyOnly_world_def corruptCA_world_def
  apiKeyOnly_world_def badIP_cfg_def dup_cfg_def tiny_cfg_def badCIDR_cfg_def allBad_cfg_def dup_config_def caOnly_world_def stale_apiCert_def generated_world_def

lemmas run_defs = CreatePKIAssets_def assembleAltNames_def provisionCA_def provisionAPIServer_def
  internalAPIServerFQDN_def GetIndexedIP_def bigForIP_def Contains_def
  CertOrKeyExist_def TryLoadCertAndKeyFromDisk_def WriteCertAndKey_def pathsForCertAndKey_def
  CACertAndKeyBaseName_def APIServerCertAndKeyBaseName_def fileExists_def println_def logCall_def
  holdsPair_def exactlyOneExists_def presentInvalid_def Let_def

section \<open>Claims about CreatePKIAssets\<close>

text \<open>
  Claim C1, as amended. When the store holds a CA pair whose certificate has the CA bit
  and a server pair (both files of each exist and parse), \<^verbatim>\<open>CreatePKIAssets\<close> generates
  nothing, writes nothing and leaves every file as it is; it returns \<^verbatim>\<open>nil\<close> and reports
  both pairs as reused when the assembly of the alternative names succeeds, and returns
  the error of the assembly otherwise. A second run right after a successful first run,
  with a certificate library whose CA certificates carry the CA bit, returns \<^verbatim>\<open>nil\<close>,
  reports both pairs as reused and changes no file.
\<close>

theorem idempotent_provisioning:
  "(holdsPair w d CACertAndKeyBaseName cc ck \<and> IsCA cc \<and>
    holdsPair w d APIServerCertAndKeyBaseName ac ak \<longrightarrow>
      files (snd (CreatePKIAssets e cfg d w)) = files w \<and>
      calls (snd (CreatePKIAssets e cfg d w)) = calls w \<and>
      CreatePKIAssets e cfg d w =
        (case assembleAltNames e cfg of
           Inl err \<Rightarrow> (Some err, w)
         | Inr a \<Rightarrow> (None, w\<lparr>stdout := stdout w @
             [UsingExistingCA, UsingExistingAPIServer, ValidCertsNowExist d]\<rparr>)))
   \<and> (generatesCA e \<and> CreatePKIAssets e cfg d w = (None, w') \<longrightarrow>
         CreatePKIAssets e cfg d w' =
           (None, w'\<lparr>stdout := stdout w' @
              [UsingExistingCA, UsingExistingAPIServer, ValidCertsNowExist d]\<rparr>))"
proof (intro conjI impI)
  assume h: "holdsPair w d CACertAndKeyBaseName cc ck \<and> IsCA cc \<and>
    holdsPair w d APIServerCertAndKeyBaseName ac ak"
  show run: "CreatePKIAssets e cfg d w =
        (case assembleAltNames e cfg of
           Inl err \<Rightarrow> (Some err, w)
         | Inr a \<Rightarrow> (None, w\<lparr>stdout := stdout w @
             [UsingExistingCA, UsingExistingAPIServer, ValidCertsNowExist d]\<rparr>))"
  proof (cases "assembleAltNames e cfg")
    case (Inl err)
    then show ?thesis by (simp add: CreatePKIAssets_assembly_fails)
  next
    case (Inr a)
    with h CreatePKIAssets_valid_store [of w d cc ck ac ak e cfg a] show ?thesis by simp
  qed
  show "files (snd (CreatePKIAssets e cfg d w)) = files w"
    unfolding run by (simp split: sum.splits)
  show "calls (snd (CreatePKIAssets e cfg d w)) = calls w"
    unfolding run by (simp split: sum.splits)
next
  assume h: "generatesCA e \<and> CreatePKIAssets e cfg d w = (None, w')"
  then obtain cc ck ac ak a where "holdsPair w' d CACertAndKeyBaseName cc ck" "IsCA cc"
    "holdsPair w' d APIServerCertAndKeyBaseName ac ak" "assembleAltNames e cfg = Inr a"
    using CreatePKIAssets_ok_valid [of e cfg d w w'] by blast
  then show "CreatePKIAssets e cfg d w' =
           (None, w'\<lparr>stdout := stdout w' @
              [UsingExistingCA, UsingExistingAPIServer, ValidCertsNowExist d]\<rparr>)"
    by (rule CreatePKIAssets_valid_store)
qed

text \<open>At the store \<open>valid_world\<close>, and for two runs from the empty store: the first
  generates both pairs, the second reuses them.\<close>

theorem idempotent_provisioning_witness:
  "holdsPair valid_world ex_pkiDir CACertAndKeyBaseName ex_caCert (PrivateKey 1) \<and>
   IsCA ex_caCert \<and>
   holdsPair valid_world ex_pkiDir APIServerCertAndKeyBaseName stale_apiCert (PrivateKey 2) \<and>
   assembleAltNames ex_env ex_cfg = Inr ex_altNames \<and>
   CreatePKIAssets ex_env ex_cfg ex_pkiDir valid_world =
     (None, valid_world\<lparr>stdout := [UsingExistingCA, UsingExistingAPIServer,
        ValidCertsNowExist ex_pkiDir]\<rparr>) \<and>
   generatesCA ex_env \<and>
   CreatePKIAssets ex_env ex_cfg ex_pkiDir empty_world = (None, generated_world) \<and>
   CreatePKIAssets ex_env ex_cfg ex_pkiDir generated_world =
     (None, generated_world\<lparr>stdout := [GeneratedCA, GeneratedAPIServer,
        ValidCertsNowExist ex_pkiDir, UsingExistingCA, UsingExistingAPIServer,
        ValidCertsNowExist ex_pkiDir]\<rparr>)"
proof -
  have h1: "holdsPair valid_world ex_pkiDir CACertAndKeyBaseName ex_caCert (PrivateKey 1) \<and>
      IsCA ex_caCert \<and>
      holdsPair valid_world ex_pkiDir APIServerCertAndKeyBaseName stale_apiCert (PrivateKey 2)"
    by (simp add: holdsPair_def pathsForCertAndKey_def CACertAndKeyBaseName_def
        APIServerCertAndKeyBaseName_def ex_pkiDir_def valid_world_def ex_caCert_def)
  have h2: "assembleAltNames ex_env ex_cfg = Inr ex_altNames"
    by (simp add: run_defs ex_defs)
  have h3: "generatesCA ex_env \<and>
      CreatePKIAssets ex_env ex_cfg ex_pkiDir empty_world = (None, generated_world)"
    by (simp add: generatesCA_def run_defs ex_defs)
  note thm1 = idempotent_provisioning [of valid_world ex_pkiDir ex_caCert "PrivateKey 1"
      stale_apiCert "PrivateKey 2" ex_env ex_cfg generated_world, THEN conjunct1, rule_format, OF h1]
  note thm2 = idempotent_provisioning [of empty_world ex_pkiDir ex_caCert "PrivateKey 1"
      stale_apiCert "PrivateKey 2" ex_env ex_cfg generated_world, THEN conjunct2, rule_format, OF h3]
  from thm1 h2 have r1: "CreatePKIAssets ex_env ex_cfg ex_pkiDir valid_world =
     (None, valid_world\<lparr>stdout := [UsingExistingCA, UsingExistingAPIServer,
        ValidCertsNowExist ex_pkiDir]\<rparr>)"
    by (simp add: valid_world_def)
  from thm2 have r2: "CreatePKIAssets ex_env ex_cfg ex_pkiDir generated_world =
     (None, generated_world\<lparr>stdout := [GeneratedCA, GeneratedAPIServer,
        ValidCertsNowExist ex_pkiDir, UsingExistingCA, UsingExistingAPIServer,
        ValidCertsNowExist ex_pkiDir]\<rparr>)"
    by (simp add: generated_world_def ex_pkiDir_def)
  from h1 h2 h3 r1 r2 show ?thesis by blast
qed

text \<open>The claim as first stated fails: the store holds both pairs, an advertised
  address is no IP literal, and the call returns the error of line 65, not \<^verbatim>\<open>nil\<close>.\<close>

theorem idempotent_provisioning_counterexample:
  "holdsPair valid_world ex_pkiDir CACertAndKeyBaseName ex_caCert (PrivateKey 1) \<and>
   IsCA ex_caCert \<and>
   holdsPair valid_world ex_pkiDir APIServerCertAndKeyBaseName stale_apiCert (PrivateKey 2) \<and>
   fst (CreatePKIAssets ex_env badIP_cfg ex_pkiDir valid_world) = Some (CouldNotParseIP ''not-an-ip'')"
  by (simp add: run_defs ex_defs)

text \<open>
  Claim C3, as amended. When both CA files exist and parse and the certificate's CA bit is
  unset, \<^verbatim>\<open>CreatePKIAssets\<close> fails and leaves the world as it found it: no file is
  changed, no CA is generated, nothing is printed. The error is that of line 93 when the
  assembly of the alternative names succeeds, and the error of the assembly otherwise.
\<close>

theorem ca_validity_gate:
  "holdsPair w d CACertAndKeyBaseName cc ck \<Longrightarrow> \<not> IsCA cc \<Longrightarrow>
   CreatePKIAssets e cfg d w =
     (case assembleAltNames e cfg of
        Inl err \<Rightarrow> (Some err, w)
      | Inr a \<Rightarrow> (Some NotACA, w))"
  by (simp add: CreatePKIAssets_def provisionCA_notCA split: sum.splits)

text \<open>At the store \<open>nonCA_world\<close> with the configuration of the scenario.\<close>

theorem ca_validity_gate_witness:
  "holdsPair nonCA_world ex_pkiDir CACertAndKeyBaseName (ex_caCert\<lparr>IsCA := False\<rparr>) (PrivateKey 1) \<and>
   \<not> IsCA (ex_caCert\<lparr>IsCA := False\<rparr>) \<and>
   assembleAltNames ex_env ex_cfg = Inr ex_altNames \<and>
   CreatePKIAssets ex_env ex_cfg ex_pkiDir nonCA_world = (Some NotACA, nonCA_world)"
proof -
  have h1: "holdsPair nonCA_world ex_pkiDir CACertAndKeyBaseName (ex_caCert\<lparr>IsCA := False\<rparr>) (PrivateKey 1)"
    by (simp add: holdsPair_def pathsForCertAndKey_def CACertAndKeyBaseName_def
        ex_pkiDir_def nonCA_world_def)
  have h2: "\<not> IsCA (ex_caCert\<lparr>IsCA := False\<rparr>)" by simp
  have h3: "assembleAltNames ex_env ex_cfg = Inr ex_altNames"
    by (simp add: run_defs ex_defs)
  from ca_validity_gate [OF h1 h2, of ex_env ex_cfg] h3
  have "CreatePKIAssets ex_env ex_cfg ex_pkiDir nonCA_world = (Some NotACA, nonCA_world)"
    by simp
  with h1 h2 h3 show ?thesis by blast
qed

text \<open>The claim as first stated fails: with an advertised address that is no IP literal
  the call returns the error of line 65 and never looks at the CA certificate.\<close>

theorem ca_validity_gate_counterexample:
  "holdsPair nonCA_world ex_pkiDir CACertAndKeyBaseName (ex_caCert\<lparr>IsCA := False\<rparr>) (PrivateKey 1) \<and>
   \<not> IsCA (ex_caCert\<lparr>IsCA := False\<rparr>) \<and>
   fst (CreatePKIAssets ex_env badIP_cfg ex_pkiDir nonCA_world) = Some (CouldNotParseIP ''not-an-ip'') \<and>
   fst (CreatePKIAssets ex_env badIP_cfg ex_pkiDir nonCA_world) \<noteq> Some NotACA"
  by (simp add: run_defs ex_defs)

text \<open>
  Claim C8. Whenever \<^verbatim>\<open>CreatePKIAssets\<close> returns an error, every file that the store held
  at the start of the call is still there with the same content.
\<close>

theorem no_destructive_action:
  "files w p = Some x \<Longrightarrow> fst (CreatePKIAssets e cfg d w) = Some err \<Longrightarrow>
   files (snd (CreatePKIAssets e cfg d w)) p = Some x"
  using CreatePKIAssets_preserves [OF prod.collapse [symmetric]] by blast

text \<open>At a store with the server key only: the CA pair is generated and written, the load
  of the server pair fails, the server key is as it was, and the new CA certificate stays
  (there is no rollback).\<close>

theorem no_destructive_action_witness:
  "files apiKeyOnly_world ''/etc/kubernetes/pki/apiserver.key'' = Some (KeyPEM (PrivateKey 2)) \<and>
   fst (CreatePKIAssets ex_env ex_cfg ex_pkiDir apiKeyOnly_world) = Some CouldNotBeLoaded \<and>
   files (snd (CreatePKIAssets ex_env ex_cfg ex_pkiDir apiKeyOnly_world))
     ''/etc/kubernetes/pki/apiserver.key'' = Some (KeyPEM (PrivateKey 2)) \<and>
   files apiKeyOnly_world ''/etc/kubernetes/pki/ca.crt'' = None \<and>
   files (snd (CreatePKIAssets ex_env ex_cfg ex_pkiDir apiKeyOnly_world))
     ''/etc/kubernetes/pki/ca.crt'' = Some (CertPEM ex_caCert)"
proof -
  have h1: "files apiKeyOnly_world ''/etc/kubernetes/pki/apiserver.key'' = Some (KeyPEM (PrivateKey 2))"
    by (simp add: apiKeyOnly_world_def)
  have h2: "fst (CreatePKIAssets ex_env ex_cfg ex_pkiDir apiKeyOnly_world) = Some CouldNotBeLoaded"
    by (simp add: run_defs ex_defs)
  have h3: "files apiKeyOnly_world ''/etc/kubernetes/pki/ca.crt'' = None \<and>
   files (snd (CreatePKIAssets ex_env ex_cfg ex_pkiDir apiKeyOnly_world))
     ''/etc/kubernetes/pki/ca.crt'' = Some (CertPEM ex_caCert)"
    by (simp add: run_defs ex_defs)
  from no_destructive_action [OF h1 h2] h1 h2 h3 show ?thesis by blast
qed

text \<open>
  Claim C2, as amended. When both server files exist and parse, and once the assembly of
  the alternative names and the CA step have succeeded, \<^verbatim>\<open>CreatePKIAssets\<close> returns
  \<^verbatim>\<open>nil\<close> and reports the stored server pair as reused, without generating and whatever
  names and addresses the stored certificate carries: \<^verbatim>\<open>checkAltNamesExist\<close> takes no part
  in \<^verbatim>\<open>CreatePKIAssets\<close>. When the assembly or the CA step fails, the run returns the
  error of that step. In every case the server pair stays in the store as it was.
\<close>

theorem server_reuse_without_validation:
  assumes "holdsPair w d APIServerCertAndKeyBaseName apiCert apiKey"
  shows "CreatePKIAssets e cfg d w =
      (case assembleAltNames e cfg of
         Inl err \<Rightarrow> (Some err, w)
       | Inr altNames \<Rightarrow>
           (case provisionCA e d w of
              (Inl err, w1) \<Rightarrow> (Some err, w1)
            | (Inr (caCert, caKey), w1) \<Rightarrow>
                (None, w1\<lparr>stdout := stdout w1 @
                   [UsingExistingAPIServer, ValidCertsNowExist d]\<rparr>))) \<and>
    holdsPair (snd (CreatePKIAssets e cfg d w)) d APIServerCertAndKeyBaseName apiCert apiKey"
proof
  show "holdsPair (snd (CreatePKIAssets e cfg d w)) d APIServerCertAndKeyBaseName apiCert apiKey"
    using assms
    by (rule holdsPair_preserved) (rule CreatePKIAssets_preserves [OF prod.collapse [symmetric]])
  show "CreatePKIAssets e cfg d w =
      (case assembleAltNames e cfg of
         Inl err \<Rightarrow> (Some err, w)
       | Inr altNames \<Rightarrow>
           (case provisionCA e d w of
              (Inl err, w1) \<Rightarrow> (Some err, w1)
            | (Inr (caCert, caKey), w1) \<Rightarrow>
                (None, w1\<lparr>stdout := stdout w1 @
                   [UsingExistingAPIServer, ValidCertsNowExist d]\<rparr>)))"
  proof (cases "assembleAltNames e cfg")
    case (Inl err)
    then show ?thesis by (simp add: CreatePKIAssets_assembly_fails)
  next
    case (Inr altNames)
    obtain r w1 where ca: "provisionCA e d w = (r, w1)"
      by (cases "provisionCA e d w")
    show ?thesis
    proof (cases r)
      case (Inl err)
      with Inr ca show ?thesis by (simp add: CreatePKIAssets_def)
    next
      case (Inr pair)
      obtain caCert caKey where pair: "pair = (caCert, caKey)" by (cases pair)
      have "holdsPair w1 d APIServerCertAndKeyBaseName apiCert apiKey"
        using assms by (rule holdsPair_preserved) (rule provisionCA_preserves [OF ca])
      then have "provisionAPIServer e d altNames caCert caKey w1 =
          (None, println UsingExistingAPIServer w1)"
        by (rule provisionAPIServer_reuse)
      with \<open>assembleAltNames e cfg = Inr altNames\<close> ca Inr pair show ?thesis
        by (simp add: CreatePKIAssets_def println_def)
    qed
  qed
qed

text \<open>At the store \<open>valid_world\<close>, whose server certificate covers none of the required
  names: the verifier would answer false, and the run succeeds all the same.\<close>

theorem server_reuse_without_validation_witness:
  "holdsPair valid_world ex_pkiDir APIServerCertAndKeyBaseName stale_apiCert (PrivateKey 2) \<and>
   assembleAltNames ex_env ex_cfg = Inr ex_altNames \<and>
   \<not> checkAltNamesExist (IPAddresses stale_apiCert) (CertDNSNames stale_apiCert) ex_altNames \<and>
   provisionCA ex_env ex_pkiDir valid_world =
     (Inr (ex_caCert, PrivateKey 1), valid_world\<lparr>stdout := [UsingExistingCA]\<rparr>) \<and>
   CreatePKIAssets ex_env ex_cfg ex_pkiDir valid_world =
     (None, valid_world\<lparr>stdout := [UsingExistingCA, UsingExistingAPIServer,
        ValidCertsNowExist ex_pkiDir]\<rparr>) \<and>
   holdsPair (snd (CreatePKIAssets ex_env ex_cfg ex_pkiDir valid_world)) ex_pkiDir
     APIServerCertAndKeyBaseName stale_apiCert (PrivateKey 2)"
proof -
  have h1: "assembleAltNames ex_env ex_cfg = Inr ex_altNames"
    by (simp add: run_defs ex_defs)
  have h2: "provisionCA ex_env ex_pkiDir valid_world =
     (Inr (ex_caCert, PrivateKey 1), valid_world\<lparr>stdout := [UsingExistingCA]\<rparr>)"
    by (simp add: run_defs ex_defs)
  have h3: "holdsPair valid_world ex_pkiDir APIServerCertAndKeyBaseName stale_apiCert (PrivateKey 2)"
    by (simp add: run_defs ex_defs)
  have h4: "\<not> checkAltNamesExist (IPAddresses stale_apiCert) (CertDNSNames stale_apiCert) ex_altNames"
    by (simp add: checkAltNamesExist_def NewString_def Has_def stale_apiCert_def ex_altNames_def)
  note r = server_reuse_without_validation [OF h3, of ex_env ex_cfg]
  from r h1 h2 have r1: "CreatePKIAssets ex_env ex_cfg ex_pkiDir valid_world =
     (None, valid_world\<lparr>stdout := [UsingExistingCA, UsingExistingAPIServer,
        ValidCertsNowExist ex_pkiDir]\<rparr>)"
    by simp
  from r have r2: "holdsPair (snd (CreatePKIAssets ex_env ex_cfg ex_pkiDir valid_world)) ex_pkiDir
     APIServerCertAndKeyBaseName stale_apiCert (PrivateKey 2)"
    by (rule conjunct2)
  from r1 r2 h1 h2 h3 h4 show ?thesis by blast
qed

text \<open>The claim as first stated fails: the server pair loads, the configuration is that
  of the scenario, and the run stops at line 93 because the CA certificate is no CA; the
  server pair is never looked at and nothing is reported as reused.\<close>

theorem server_reuse_without_validation_counterexample:
  "holdsPair nonCA_server_world ex_pkiDir APIServerCertAndKeyBaseName stale_apiCert (PrivateKey 2) \<and>
   assembleAltNames ex_env ex_cfg = Inr ex_altNames \<and>
   CreatePKIAssets ex_env ex_cfg ex_pkiDir nonCA_server_world = (Some NotACA, nonCA_server_world) \<and>
   fst (CreatePKIAssets ex_env ex_cfg ex_pkiDir nonCA_server_world) \<noteq> None \<and>
   stdout (snd (CreatePKIAssets ex_env ex_cfg ex_pkiDir nonCA_server_world)) = []"
  by (simp add: run_defs ex_defs)

text \<open>
  Claim C7. \<^verbatim>\<open>CreatePKIAssets\<close> fails with the error of line 55 when the host name cannot
  be determined; else with the error of line 65 when any advertised address does not
  parse (the error names the first such address); else with the error of line 71 when the service block does not parse;
  else with the error of line 75 when the address of index 1 cannot be allocated. Each of
  these failures ends the run with the world untouched.
\<close>

theorem san_error_taxonomy:
  "(Hostname e = None \<longrightarrow> CreatePKIAssets e cfg d w = (Some CouldntGetHostname, w))
   \<and> (Hostname e = Some h \<and> AdvertiseAddresses (API cfg) = pre @ a # post \<and>
       map (ParseIP e) pre = map Some ips \<and> ParseIP e a = None
      \<longrightarrow> CreatePKIAssets e cfg d w = (Some (CouldNotParseIP a), w))
   \<and> (Hostname e = Some h \<and> (\<exists>s\<in>set (AdvertiseAddresses (API cfg)). ParseIP e s = None)
      \<longrightarrow> (\<exists>s\<in>set (AdvertiseAddresses (API cfg)). ParseIP e s = None \<and>
            CreatePKIAssets e cfg d w = (Some (CouldNotParseIP s), w)))
   \<and> (Hostname e = Some h \<and> map (ParseIP e) (AdvertiseAddresses (API cfg)) = map Some ips \<and>
       ParseCIDR e (ServiceSubnet (Networking cfg)) = None
      \<longrightarrow> CreatePKIAssets e cfg d w = (Some (ErrorParsingCIDR (ServiceSubnet (Networking cfg))), w))
   \<and> (Hostname e = Some h \<and> map (ParseIP e) (AdvertiseAddresses (API cfg)) = map Some ips \<and>
       ParseCIDR e (ServiceSubnet (Networking cfg)) = Some n \<and> GetIndexedIP n 1 = None
      \<longrightarrow> CreatePKIAssets e cfg d w = (Some (UnableToAllocateIP (ServiceSubnet (Networking cfg))), w))"
proof (intro conjI impI)
  assume "Hostname e = None"
  then have "assembleAltNames e cfg = Inl CouldntGetHostname"
    by (simp add: assembleAltNames_def)
  then show "CreatePKIAssets e cfg d w = (Some CouldntGetHostname, w)"
    by (rule CreatePKIAssets_assembly_fails)
next
  assume "Hostname e = Some h \<and> AdvertiseAddresses (API cfg) = pre @ a # post \<and>
       map (ParseIP e) pre = map Some ips \<and> ParseIP e a = None"
  then have "assembleAltNames e cfg = Inl (CouldNotParseIP a)"
    by (simp add: assembleAltNames_def parseAdvertiseAddresses_first_bad [of e pre ips])
  then show "CreatePKIAssets e cfg d w = (Some (CouldNotParseIP a), w)"
    by (rule CreatePKIAssets_assembly_fails)
next
  assume h: "Hostname e = Some h \<and> (\<exists>s\<in>set (AdvertiseAddresses (API cfg)). ParseIP e s = None)"
  then obtain s where s: "s \<in> set (AdvertiseAddresses (API cfg))" "ParseIP e s = None"
    and p: "parseAdvertiseAddresses e (AdvertiseAddresses (API cfg)) [] = Inl (CouldNotParseIP s)"
    using parseAdvertiseAddresses_some_bad [of "AdvertiseAddresses (API cfg)" e "[]"] by blast
  from h p have "assembleAltNames e cfg = Inl (CouldNotParseIP s)"
    by (simp add: assembleAltNames_def)
  then have "CreatePKIAssets e cfg d w = (Some (CouldNotParseIP s), w)"
    by (rule CreatePKIAssets_assembly_fails)
  with s show "\<exists>s\<in>set (AdvertiseAddresses (API cfg)). ParseIP e s = None \<and>
            CreatePKIAssets e cfg d w = (Some (CouldNotParseIP s), w)"
    by blast
next
  assume "Hostname e = Some h \<and> map (ParseIP e) (AdvertiseAddresses (API cfg)) = map Some ips \<and>
       ParseCIDR e (ServiceSubnet (Networking cfg)) = None"
  then have "assembleAltNames e cfg = Inl (ErrorParsingCIDR (ServiceSubnet (Networking cfg)))"
    by (simp add: assembleAltNames_def parseAdvertiseAddresses_all [of e _ ips])
  then show "CreatePKIAssets e cfg d w = (Some (ErrorParsingCIDR (ServiceSubnet (Networking cfg))), w)"
    by (rule CreatePKIAssets_assembly_fails)
next
  assume "Hostname e = Some h \<and> map (ParseIP e) (AdvertiseAddresses (API cfg)) = map Some ips \<and>
       ParseCIDR e (ServiceSubnet (Networking cfg)) = Some n \<and> GetIndexedIP n 1 = None"
  then have "assembleAltNames e cfg = Inl (UnableToAllocateIP (ServiceSubnet (Networking cfg)))"
    by (simp add: assembleAltNames_def parseAdvertiseAddresses_all [of e _ ips])
  then show "CreatePKIAssets e cfg d w = (Some (UnableToAllocateIP (ServiceSubnet (Networking cfg))), w)"
    by (rule CreatePKIAssets_assembly_fails)
qed

text \<open>One run for each of the four errors. In the first two the configuration also has a
  bad service block, and the earlier check decides.\<close>

theorem san_error_taxonomy_witness:
  "CreatePKIAssets (ex_env\<lparr>Hostname := None\<rparr>) allBad_cfg ex_pkiDir empty_world =
     (Some CouldntGetHostname, empty_world) \<and>
   CreatePKIAssets ex_env allBad_cfg ex_pkiDir empty_world =
     (Some (CouldNotParseIP ''not-an-ip''), empty_world) \<and>
   CreatePKIAssets ex_env badCIDR_cfg ex_pkiDir empty_world =
     (Some (ErrorParsingCIDR ''not-a-cidr''), empty_world) \<and>
   CreatePKIAssets ex_env tiny_cfg ex_pkiDir empty_world =
     (Some (UnableToAllocateIP ''10.96.0.7/32''), empty_world)"
proof -
  have r1: "CreatePKIAssets (ex_env\<lparr>Hostname := None\<rparr>) allBad_cfg ex_pkiDir empty_world =
     (Some CouldntGetHostname, empty_world)"
    using san_error_taxonomy [of "ex_env\<lparr>Hostname := None\<rparr>" allBad_cfg ex_pkiDir empty_world]
    by simp
  have r2: "CreatePKIAssets ex_env allBad_cfg ex_pkiDir empty_world =
     (Some (CouldNotParseIP ''not-an-ip''), empty_world)"
    using san_error_taxonomy [of ex_env allBad_cfg ex_pkiDir empty_world "''master-1''"
        "[''10.0.0.5'']" "''not-an-ip''" "[''192.168.1.7'']"
        "[[0, 0, 0, 0, 0, 0, 0, 0, 0, 0, 0xff, 0xff, 10, 0, 0, 5]]"]
    by (simp add: ex_env_def allBad_cfg_def ex_ParseIP_def)
  have r3: "CreatePKIAssets ex_env badCIDR_cfg ex_pkiDir empty_world =
     (Some (ErrorParsingCIDR ''not-a-cidr''), empty_world)"
    using san_error_taxonomy [of ex_env badCIDR_cfg ex_pkiDir empty_world "''master-1''" _ _ _
        "[[0, 0, 0, 0, 0, 0, 0, 0, 0, 0, 0xff, 0xff, 10, 0, 0, 5]]"]
    by (simp add: ex_env_def badCIDR_cfg_def ex_cfg_def ex_ParseIP_def ex_ParseCIDR_def)
  have r4: "CreatePKIAssets ex_env tiny_cfg ex_pkiDir empty_world =
     (Some (UnableToAllocateIP ''10.96.0.7/32''), empty_world)"
    using san_error_taxonomy [of ex_env tiny_cfg ex_pkiDir empty_world "''master-1''" _ _ _
        "[[0, 0, 0, 0, 0, 0, 0, 0, 0, 0, 0xff, 0xff, 10, 0, 0, 5]]"
        "\<lparr>IP = [10, 96, 0, 7], Mask = [255, 255, 255, 255]\<rparr>"]
    by (simp add: ex_env_def tiny_cfg_def ex_cfg_def ex_ParseIP_def ex_ParseCIDR_def
        GetIndexedIP_def bigForIP_def Contains_def)
  from r1 r2 r3 r4 show ?thesis by blast
qed








lemma provisionCA_keeps_api_absent:
  assumes "provisionCA e d w = (r, w1)" "\<not> CertOrKeyExist w d APIServerCertAndKeyBaseName"
  shows "\<not> CertOrKeyExist w1 d APIServerCertAndKeyBaseName"
proof -
  have "files w1 (d @ ''/apiserver.crt'') = files w (d @ ''/apiserver.crt'')"
    and "files w1 (d @ ''/apiserver.key'') = files w (d @ ''/apiserver.key'')"
    by (rule provisionCA_other_files [OF assms(1)]; simp)+
  with assms(2) show ?thesis
    by (simp add: CertOrKeyExist_def paths_API fileExists_def)
qed

lemma provisionAPIServer_generates:
  assumes "\<not> CertOrKeyExist w d APIServerCertAndKeyBaseName"
  shows "\<exists>rest. calls (snd (provisionAPIServer e d a cc ck w)) =
     calls w @ CallNewCertAndKey cc ck
       \<lparr>CommonName = ''kube-apiserver'', AltNames = a, Usages = [ExtKeyUsageServerAuth]\<rparr> # rest"
  using assms
  by (auto simp: provisionAPIServer_def Let_def logCall_def println_def
      split: option.splits prod.splits dest!: WriteCertAndKey_calls)

text \<open>
  Claim C9, as amended. Repetitions among the inputs are kept: the DNS names handed to the
  certificate library are the external names, the host name and the four internal
  aliases, in this order, each as often as it occurs among them; the addresses are the
  parsed advertised addresses in their order, followed by the virtual address, which is
  the address of index 1 of the parsed service block. This is the request that
  \<^verbatim>\<open>NewCertAndKey\<close> receives whenever the server pair is generated.
\<close>

theorem san_duplicates_kept:
  assumes "assembleAltNames e cfg = Inr altNames"
    and "provisionCA e d w = (Inr (caCert, caKey), w1)"
    and "\<not> CertOrKeyExist w d APIServerCertAndKeyBaseName"
  shows "\<exists>h ips n v rest. Hostname e = Some h \<and>
     map (ParseIP e) (AdvertiseAddresses (API cfg)) = map Some ips \<and>
     ParseCIDR e (ServiceSubnet (Networking cfg)) = Some n \<and>
     GetIndexedIP n 1 = Some v \<and>
     DNSNames altNames = ExternalDNSNames (API cfg) @ [h] @
       [''kubernetes'', ''kubernetes.default'', ''kubernetes.default.svc'',
        ''kubernetes.default.svc.'' @ DNSDomain (Networking cfg)] \<and>
     IPs altNames = ips @ [v] \<and>
     (\<forall>x. count_list (DNSNames altNames) x =
        count_list (ExternalDNSNames (API cfg)) x +
        count_list [h, ''kubernetes'', ''kubernetes.default'', ''kubernetes.default.svc'',
          ''kubernetes.default.svc.'' @ DNSDomain (Networking cfg)] x) \<and>
     calls (snd (CreatePKIAssets e cfg d w)) =
       calls w1 @ CallNewCertAndKey caCert caKey
         \<lparr>CommonName = ''kube-apiserver'', AltNames = altNames,
          Usages = [ExtKeyUsageServerAuth]\<rparr> # rest"
proof -
  from assembleAltNames_Inr [OF assms(1)] obtain h ips n v where
    h: "Hostname e = Some h" and
    m: "map (ParseIP e) (AdvertiseAddresses (API cfg)) = map Some ips" and
    n: "ParseCIDR e (ServiceSubnet (Networking cfg)) = Some n" and
    v: "GetIndexedIP n 1 = Some v" and
    a: "altNames = \<lparr>DNSNames = ExternalDNSNames (API cfg) @ [h] @ internalAPIServerFQDN cfg,
          IPs = ips @ [v]\<rparr>"
    by blast
  have absent: "\<not> CertOrKeyExist w1 d APIServerCertAndKeyBaseName"
    using assms(2,3) by (rule provisionCA_keeps_api_absent)
  from provisionAPIServer_generates [OF absent, of e altNames caCert caKey] obtain rest where
    "calls (snd (provisionAPIServer e d altNames caCert caKey w1)) =
     calls w1 @ CallNewCertAndKey caCert caKey
       \<lparr>CommonName = ''kube-apiserver'', AltNames = altNames, Usages = [ExtKeyUsageServerAuth]\<rparr> # rest"
    by blast
  then have c: "calls (snd (CreatePKIAssets e cfg d w)) =
       calls w1 @ CallNewCertAndKey caCert caKey
         \<lparr>CommonName = ''kube-apiserver'', AltNames = altNames,
          Usages = [ExtKeyUsageServerAuth]\<rparr> # rest"
    by (cases "provisionAPIServer e d altNames caCert caKey w1")
      (auto simp: CreatePKIAssets_def assms(1,2) println_def split: option.splits)
  from a have d1: "DNSNames altNames = ExternalDNSNames (API cfg) @ [h] @
       [''kubernetes'', ''kubernetes.default'', ''kubernetes.default.svc'',
        ''kubernetes.default.svc.'' @ DNSDomain (Networking cfg)]"
    and d2: "IPs altNames = ips @ [v]"
    by (simp_all add: internalAPIServerFQDN_def)
  have d3: "\<forall>x. count_list (DNSNames altNames) x =
        count_list (ExternalDNSNames (API cfg)) x +
        count_list [h, ''kubernetes'', ''kubernetes.default'', ''kubernetes.default.svc'',
          ''kubernetes.default.svc.'' @ DNSDomain (Networking cfg)] x"
    unfolding d1 by simp
  from h m n v d1 d2 d3 c show ?thesis by blast
qed

text \<open>At the empty store with \<open>dup_cfg\<close>: the name \<^verbatim>\<open>kubernetes\<close> is handed over twice.\<close>

theorem san_duplicates_kept_witness:
  "assembleAltNames ex_env dup_cfg = Inr (AltNames dup_config) \<and>
   provisionCA ex_env ex_pkiDir empty_world = (Inr (ex_caCert, PrivateKey 1), caOnly_world) \<and>
   \<not> CertOrKeyExist empty_world ex_pkiDir APIServerCertAndKeyBaseName \<and>
   (\<exists>rest. calls (snd (CreatePKIAssets ex_env dup_cfg ex_pkiDir empty_world)) =
       [CallNewCertificateAuthority, CallWriteCertAndKey ex_pkiDir ''ca'',
        CallNewCertAndKey ex_caCert (PrivateKey 1) dup_config] @ rest) \<and>
   count_list (DNSNames (AltNames dup_config)) ''kubernetes'' = 2 \<and>
   GetIndexedIP \<lparr>IP = [10, 96, 0, 0], Mask = [255, 240, 0, 0]\<rparr> 1 = Some [10, 96, 0, 1] \<and>
   last (IPs (AltNames dup_config)) = [10, 96, 0, 1]"
proof -
  have h1: "assembleAltNames ex_env dup_cfg = Inr (AltNames dup_config)"
    by (simp add: run_defs ex_defs)
  have h2: "provisionCA ex_env ex_pkiDir empty_world = (Inr (ex_caCert, PrivateKey 1), caOnly_world)"
    by (simp add: run_defs ex_defs)
  have h3: "\<not> CertOrKeyExist empty_world ex_pkiDir APIServerCertAndKeyBaseName"
    by (simp add: run_defs ex_defs)
  from san_duplicates_kept [OF h1 h2 h3] obtain h ips n v rest where
    ni: "ParseCIDR ex_env (ServiceSubnet (Networking dup_cfg)) = Some n" and
    vi: "GetIndexedIP n 1 = Some v" and
    il: "IPs (AltNames dup_config) = ips @ [v]" and
    n: "\<forall>x. count_list (DNSNames (AltNames dup_config)) x =
        count_list (ExternalDNSNames (API dup_cfg)) x +
        count_list [h, ''kubernetes'', ''kubernetes.default'', ''kubernetes.default.svc'',
          ''kubernetes.default.svc.'' @ DNSDomain (Networking dup_cfg)] x" and
    hn: "Hostname ex_env = Some h" and
    c: "calls (snd (CreatePKIAssets ex_env dup_cfg ex_pkiDir empty_world)) =
       calls caOnly_world @ CallNewCertAndKey ex_caCert (PrivateKey 1)
         \<lparr>CommonName = ''kube-apiserver'', AltNames = AltNames dup_config,
          Usages = [ExtKeyUsageServerAuth]\<rparr> # rest"
    by blast
  from c have r1: "\<exists>rest. calls (snd (CreatePKIAssets ex_env dup_cfg ex_pkiDir empty_world)) =
       [CallNewCertificateAuthority, CallWriteCertAndKey ex_pkiDir ''ca'',
        CallNewCertAndKey ex_caCert (PrivateKey 1) dup_config] @ rest"
    by (simp add: caOnly_world_def dup_config_def ex_pkiDir_def)
  from hn have "h = ''master-1''" by (simp add: ex_env_def)
  with n have r2: "count_list (DNSNames (AltNames dup_config)) ''kubernetes'' = 2"
    by (simp add: dup_cfg_def ex_cfg_def)
  from ni have "n = \<lparr>IP = [10, 96, 0, 0], Mask = [255, 240, 0, 0]\<rparr>"
    by (simp add: ex_env_def dup_cfg_def ex_cfg_def ex_ParseCIDR_def)
  with vi have r3: "GetIndexedIP \<lparr>IP = [10, 96, 0, 0], Mask = [255, 240, 0, 0]\<rparr> 1 = Some v"
    by simp
  have r4: "GetIndexedIP \<lparr>IP = [10, 96, 0, 0], Mask = [255, 240, 0, 0]\<rparr> 1 = Some [10, 96, 0, 1]"
    by (simp add: GetIndexedIP_def bigForIP_def Contains_def)
  with r3 have "v = [10, 96, 0, 1]" by simp
  with il have r5: "last (IPs (AltNames dup_config)) = [10, 96, 0, 1]" by simp
  from h1 h2 h3 r1 r2 r4 r5 show ?thesis by blast
qed

text \<open>The claim as first stated fails: in the request handed to the certificate library
  one DNS name and one address occur twice.\<close>

theorem san_duplicates_counterexample:
  "calls (snd (CreatePKIAssets ex_env dup_cfg ex_pkiDir empty_world)) =
     [CallNewCertificateAuthority, CallWriteCertAndKey ex_pkiDir ''ca'',
      CallNewCertAndKey ex_caCert (PrivateKey 1) dup_config,
      CallWriteCertAndKey ex_pkiDir ''apiserver''] \<and>
   \<not> distinct (DNSNames (AltNames dup_config)) \<and>
   \<not> distinct (IPs (AltNames dup_config))"
  by (simp add: run_defs ex_defs)

section \<open>The coverage verifier\<close>

lemma found_iff: "found ips x \<longleftrightarrow> (\<exists>ip\<in>set ips. Equal ip x)"
  by (induction ips) auto

lemma dnsNamesExist_iff: "dnsNamesExist s ds \<longleftrightarrow> (\<forall>d\<in>set ds. d \<in> s)"
  by (induction ds) (auto simp: Has_def)

lemma ipsExist_iff: "ipsExist ips xs \<longleftrightarrow> (\<forall>x\<in>set xs. \<exists>ip\<in>set ips. Equal ip x)"
  by (induction xs) (auto simp: found_iff)

lemma checkAltNamesExist_iff:
  "checkAltNamesExist ips dns req \<longleftrightarrow>
     (\<forall>d\<in>set (DNSNames req). d \<in> set dns) \<and>
     (\<forall>x\<in>set (IPs req). \<exists>ip\<in>set ips. Equal ip x)"
  by (simp add: checkAltNamesExist_def NewString_def dnsNamesExist_iff ipsExist_iff)

lemma Equal_refl: "Equal ip ip"
  by (simp add: Equal_def)

text \<open>
  Claim C6. \<^verbatim>\<open>checkAltNamesExist(IPs, DNSNames, required)\<close> is true exactly when every
  required DNS name is an element of \<^verbatim>\<open>DNSNames\<close> (the same string) and every required
  address is \<^verbatim>\<open>Equal\<close> to an element of \<^verbatim>\<open>IPs\<close>. Hence a set of names covers itself; it does
  not cover a set with a name or an address that it lacks; and a permutation of any of the
  argument lists leaves the result as it is. The function takes and returns values only:
  it has no world to read or to change.
\<close>

theorem checkAltNamesExist_correct:
  "(checkAltNamesExist ips dns req \<longleftrightarrow>
      (\<forall>d\<in>set (DNSNames req). d \<in> set dns) \<and>
      (\<forall>x\<in>set (IPs req). \<exists>ip\<in>set ips. Equal ip x))
   \<and> checkAltNamesExist (IPs a) (DNSNames a) a
   \<and> ((\<exists>d\<in>set (DNSNames b). d \<notin> set (DNSNames a)) \<or>
       (\<exists>x\<in>set (IPs b). \<forall>ip\<in>set (IPs a). \<not> Equal ip x)
      \<longrightarrow> \<not> checkAltNamesExist (IPs a) (DNSNames a) b)
   \<and> (mset ips' = mset ips \<and> mset dns' = mset dns \<and>
       mset (DNSNames req') = mset (DNSNames req) \<and> mset (IPs req') = mset (IPs req)
      \<longrightarrow> checkAltNamesExist ips' dns' req' = checkAltNamesExist ips dns req)"
proof (intro conjI impI)
  show "checkAltNamesExist ips dns req \<longleftrightarrow>
      (\<forall>d\<in>set (DNSNames req). d \<in> set dns) \<and>
      (\<forall>x\<in>set (IPs req). \<exists>ip\<in>set ips. Equal ip x)"
    by (rule checkAltNamesExist_iff)
  show "checkAltNamesExist (IPs a) (DNSNames a) a"
    unfolding checkAltNamesExist_iff using Equal_refl by blast
  show "\<not> checkAltNamesExist (IPs a) (DNSNames a) b"
    if "(\<exists>d\<in>set (DNSNames b). d \<notin> set (DNSNames a)) \<or>
       (\<exists>x\<in>set (IPs b). \<forall>ip\<in>set (IPs a). \<not> Equal ip x)"
    using that unfolding checkAltNamesExist_iff by blast
  show "checkAltNamesExist ips' dns' req' = checkAltNamesExist ips dns req"
    if h: "mset ips' = mset ips \<and> mset dns' = mset dns \<and>
       mset (DNSNames req') = mset (DNSNames req) \<and> mset (IPs req') = mset (IPs req)"
  proof -
    from h have "set ips' = set ips" "set dns' = set dns"
      "set (DNSNames req') = set (DNSNames req)" "set (IPs req') = set (IPs req)"
      by (auto dest: mset_eq_setD)
    then show ?thesis by (simp add: checkAltNamesExist_iff)
  qed
qed

text \<open>At concrete arguments: the 4-byte form of 10.0.0.5 covers its 16-byte form; the
  names of the scenario cover themselves and do not cover a foreign name; a reordering
  changes nothing.\<close>

theorem checkAltNamesExist_correct_witness:
  "checkAltNamesExist [[10, 0, 0, 5]] [''example.com'', ''master-1'']
     \<lparr>DNSNames = [''master-1''], IPs = [[0, 0, 0, 0, 0, 0, 0, 0, 0, 0, 0xff, 0xff, 10, 0, 0, 5]]\<rparr>
   \<and> checkAltNamesExist (IPs ex_altNames) (DNSNames ex_altNames) ex_altNames
   \<and> \<not> checkAltNamesExist (IPs ex_altNames) (DNSNames ex_altNames)
         \<lparr>DNSNames = [''kubernetes'', ''other.example.com''], IPs = []\<rparr>
   \<and> mset [[10, 96, 0, 1], [10, 0, 0, 5]] = mset [[10, 0, 0, 5], [10, 96, 0, 1 :: byte]]
   \<and> mset [''master-1'', ''example.com''] = mset [''example.com'', ''master-1'']
   \<and> checkAltNamesExist [[10, 96, 0, 1], [10, 0, 0, 5]] [''master-1'', ''example.com'']
         \<lparr>DNSNames = [''master-1'', ''example.com''], IPs = [[10, 0, 0, 5], [10, 96, 0, 1]]\<rparr>
     = checkAltNamesExist [[10, 0, 0, 5], [10, 96, 0, 1]] [''example.com'', ''master-1'']
         \<lparr>DNSNames = [''example.com'', ''master-1''], IPs = [[10, 96, 0, 1], [10, 0, 0, 5]]\<rparr>"
  using checkAltNamesExist_correct
    [of "[[10, 0, 0, 5]]" "[''example.com'', ''master-1'']"
        "\<lparr>DNSNames = [''master-1''], IPs = [[0, 0, 0, 0, 0, 0, 0, 0, 0, 0, 0xff, 0xff, 10, 0, 0, 5]]\<rparr>"
        ex_altNames
        "\<lparr>DNSNames = [''kubernetes'', ''other.example.com''], IPs = []\<rparr>"
        "[[10, 96, 0, 1], [10, 0, 0, 5]]" "[''master-1'', ''example.com'']"
        "\<lparr>DNSNames = [''master-1'', ''example.com''], IPs = [[10, 0, 0, 5], [10, 96, 0, 1]]\<rparr>"]
  by (simp add: ex_altNames_def Equal_def v4InV6Prefix_def checkAltNamesExist_def NewString_def
      Has_def add_mset_commute)

text \<open>
  Claim C10. When the required set has no DNS name and no address, \<^verbatim>\<open>checkAltNamesExist\<close>
  is true for every pair of actual lists, the two empty lists among them.
\<close>

theorem vacuous_coverage:
  "DNSNames altNames = [] \<Longrightarrow> IPs altNames = [] \<Longrightarrow> checkAltNamesExist ips dnsNames altNames"
  by (simp add: checkAltNamesExist_def)

theorem vacuous_coverage_witness:
  "DNSNames \<lparr>DNSNames = [], IPs = []\<rparr> = [] \<and> IPs \<lparr>DNSNames = [], IPs = []\<rparr> = [] \<and>
   checkAltNamesExist [] [] \<lparr>DNSNames = [], IPs = []\<rparr> \<and>
   checkAltNamesExist [[10, 0, 0, 9]] [''old.example.com''] \<lparr>DNSNames = [], IPs = []\<rparr>"
  using vacuous_coverage [of "\<lparr>DNSNames = [], IPs = []\<rparr>" "[]" "[]"]
    vacuous_coverage [of "\<lparr>DNSNames = [], IPs = []\<rparr>" "[[10, 0, 0, 9]]" "[''old.example.com'']"]
  by simp

end
